theory Spec2Isabelle
  imports Main
begin

section \<open>Python values and dictionaries\<close>

text \<open>
  The converter \<^verbatim>\<open>json-rpc/tools/xml2json.py\<close> walks an XML tree and assembles
  JSON-like Python values. The values it builds are strings, integers, booleans, \<^verbatim>\<open>None\<close>,
  tuples, lists and insertion-ordered dictionaries. Strings are byte lists; the model is
  about ASCII text.
\<close>

datatype pyval =
    PNone
  | PBool bool
  | PInt int
  | PStr string
  | PTuple "pyval list"
  | PList "pyval list"
  | PDict "(pyval \<times> pyval) list"

type_synonym pydict = "(pyval \<times> pyval) list"

text \<open>
  A Python \<^verbatim>\<open>dict\<close> keeps its keys in insertion order; storing under an existing key
  replaces the value and keeps the position. \<^verbatim>\<open>d[k] = v\<close> is \<open>dict_set\<close>,
  \<^verbatim>\<open>d.get(k)\<close> is \<open>dict_get\<close>, \<^verbatim>\<open>k in d\<close> is \<open>dict_has\<close>, removing a
  present key (\<^verbatim>\<open>del d[k]\<close>, the effect of \<^verbatim>\<open>d.pop(k)\<close>) is \<open>dict_del\<close>, and
  \<^verbatim>\<open>d.update(other)\<close> is \<open>dict_update\<close>.
\<close>

fun dict_set :: "pyval \<Rightarrow> pyval \<Rightarrow> pydict \<Rightarrow> pydict" where
  "dict_set k v [] = [(k, v)]"
| "dict_set k v ((k', v') # d) =
     (if k' = k then (k', v) # d else (k', v') # dict_set k v d)"

definition dict_get :: "pydict \<Rightarrow> pyval \<Rightarrow> pyval option" where
  "dict_get d k = map_of d k"

definition dict_has :: "pydict \<Rightarrow> pyval \<Rightarrow> bool" where
  "dict_has d k = (dict_get d k \<noteq> None)"

definition dict_del :: "pyval \<Rightarrow> pydict \<Rightarrow> pydict" where
  "dict_del k d = filter (\<lambda>kv. fst kv \<noteq> k) d"

definition dict_update :: "pydict \<Rightarrow> pydict \<Rightarrow> pydict" where
  "dict_update d other = fold (\<lambda>kv. dict_set (fst kv) (snd kv)) other d"

datatype pyerr = KeyError | ValueError | TypeError

section \<open>Strings: \<^verbatim>\<open>int()\<close>, \<^verbatim>\<open>strip\<close>, \<^verbatim>\<open>split\<close>, \<^verbatim>\<open>in\<close>, \<^verbatim>\<open>os.path.join\<close>\<close>

definition py_isspace :: "char \<Rightarrow> bool" where
  "py_isspace c = (c = CHR '' '' \<or> (9 \<le> (of_char c :: nat) \<and> (of_char c :: nat) \<le> 13)
     \<or> (28 \<le> (of_char c :: nat) \<and> (of_char c :: nat) \<le> 31))"

definition py_strip :: "string \<Rightarrow> string" where
  "py_strip s = rev (dropWhile py_isspace (rev (dropWhile py_isspace s)))"

definition is_digit :: "char \<Rightarrow> bool" where
  "is_digit c = (48 \<le> (of_char c :: nat) \<and> (of_char c :: nat) \<le> 57)"

definition digit_val :: "char \<Rightarrow> nat" where
  "digit_val c = (of_char c :: nat) - 48"

text \<open>
  The digits of a decimal literal as \<^verbatim>\<open>int()\<close> reads them: a single underscore may
  stand between two digits.
\<close>

fun parse_digits :: "nat \<Rightarrow> string \<Rightarrow> nat option" where
  "parse_digits acc [] = Some acc"
| "parse_digits acc (c # cs) =
     (if is_digit c then parse_digits (acc * 10 + digit_val c) cs
      else if c = CHR ''_'' \<and> cs \<noteq> [] \<and> is_digit (hd cs) then parse_digits acc cs
      else None)"

text \<open>
  \<^verbatim>\<open>int(s)\<close> on a string: surrounding whitespace is dropped, one sign is allowed, the
  rest is a non-empty decimal literal starting with a digit. \<open>None\<close> is \<^verbatim>\<open>ValueError\<close>.
  The interpreter's limit on the number of digits is not modelled.
\<close>

definition py_int :: "string \<Rightarrow> int option" where
  "py_int s =
     (let t = py_strip s;
          neg = (t \<noteq> [] \<and> hd t = CHR ''-'');
          body = (if t \<noteq> [] \<and> (hd t = CHR ''-'' \<or> hd t = CHR ''+'') then tl t else t)
      in if body = [] \<or> \<not> is_digit (hd body) then None
         else map_option (\<lambda>n. if neg then - int n else int n) (parse_digits 0 body))"

text \<open>\<^verbatim>\<open>int(x)\<close> on a value: an integer is itself, a string is parsed, a container is a
  \<^verbatim>\<open>TypeError\<close>.\<close>

fun py_int_of :: "pyval \<Rightarrow> pyerr + int" where
  "py_int_of (PInt i) = Inr i"
| "py_int_of (PBool b) = Inr (if b then 1 else 0)"
| "py_int_of (PStr s) = (case py_int s of None \<Rightarrow> Inl ValueError | Some i \<Rightarrow> Inr i)"
| "py_int_of _ = Inl TypeError"

text \<open>\<^verbatim>\<open>s.split(c)\<close> for a one-character separator.\<close>

fun py_split :: "char \<Rightarrow> string \<Rightarrow> string list" where
  "py_split c [] = [[]]"
| "py_split c (x # xs) =
     (if x = c then [] # py_split c xs
      else (case py_split c xs of
              [] \<Rightarrow> [[x]]
            | w # ws \<Rightarrow> (x # w) # ws))"

text \<open>\<^verbatim>\<open>sub in s\<close> on strings: \<open>sub\<close> occurs in \<open>s\<close> as a contiguous block.\<close>

fun py_contains :: "string \<Rightarrow> string \<Rightarrow> bool" where
  "py_contains sub [] = (sub = [])"
| "py_contains sub (c # cs) = (take (length sub) (c # cs) = sub \<or> py_contains sub cs)"

text \<open>\<^verbatim>\<open>os.path.join(a, b)\<close> on POSIX paths.\<close>

definition join :: "string \<Rightarrow> string \<Rightarrow> string" where
  "join a b =
     (if b \<noteq> [] \<and> hd b = CHR ''/'' then b
      else if a = [] \<or> last a = CHR ''/'' then a @ b
      else a @ ''/'' @ b)"

section \<open>The XML tree\<close>

text \<open>
  An \<^verbatim>\<open>lxml\<close> element: its tag, its attributes and its children in document order.
  \<^verbatim>\<open>elem.attrib.get(k)\<close> is \<open>attr_get\<close>, \<^verbatim>\<open>elem.attrib.get(k, "")\<close> is
  \<open>attr_get_or\<close>, \<^verbatim>\<open>elem.findall(t)\<close> is \<open>findall\<close> and \<^verbatim>\<open>elem.find(t)\<close> is
  \<open>find_child\<close>: the children, or the first child, with tag \<open>t\<close>. A comment or a
  processing instruction among the children is an element whose tag is none of the names
  the code compares with.
\<close>

datatype xml = Element (tag: string) (attrib: "(string \<times> string) list") (getchildren: "xml list")

definition attr_get :: "xml \<Rightarrow> string \<Rightarrow> string option" where
  "attr_get e k = map_of (attrib e) k"

definition attr_get_or :: "xml \<Rightarrow> string \<Rightarrow> string \<Rightarrow> string" where
  "attr_get_or e k d = (case attr_get e k of None \<Rightarrow> d | Some v \<Rightarrow> v)"

definition findall :: "string \<Rightarrow> xml \<Rightarrow> xml list" where
  "findall t e = filter (\<lambda>c. tag c = t) (getchildren e)"

definition find_child :: "string \<Rightarrow> xml \<Rightarrow> xml option" where
  "find_child t e = (case findall t e of [] \<Rightarrow> None | c # _ \<Rightarrow> Some c)"

text \<open>Truth of an optional string: \<^verbatim>\<open>None\<close> and \<^verbatim>\<open>""\<close> are false.\<close>

definition truthy :: "string option \<Rightarrow> bool" where
  "truthy a = (case a of None \<Rightarrow> False | Some s \<Rightarrow> s \<noteq> [])"

definition opt_str :: "string option \<Rightarrow> pyval" where
  "opt_str a = (case a of None \<Rightarrow> PNone | Some s \<Rightarrow> PStr s)"

section \<open>The type-mapping table\<close>

text \<open>
  A JSON type of the table is one string or a tuple of strings. \<open>jtype_val\<close> is the
  Python value stored in a schema, \<open>jtype_truthy\<close> its truth value, \<open>jtype_str\<close> what an
  f-string prints for it, and \<open>array_in\<close> is \<^verbatim>\<open>"array" in newType.type\<close>: a substring
  test on a string, a membership test on a tuple.
\<close>

datatype jtype = Single string | Multi "string list"

fun jtype_val :: "jtype \<Rightarrow> pyval" where
  "jtype_val (Single s) = PStr s"
| "jtype_val (Multi ss) = PTuple (map PStr ss)"

fun jtype_truthy :: "jtype \<Rightarrow> bool" where
  "jtype_truthy (Single s) = (s \<noteq> [])"
| "jtype_truthy (Multi ss) = (ss \<noteq> [])"

fun tuple_items :: "string list \<Rightarrow> string" where
  "tuple_items [] = []"
| "tuple_items [s] = [CHR 0x27] @ s @ [CHR 0x27]"
| "tuple_items (s # ss) = [CHR 0x27] @ s @ [CHR 0x27] @ '', '' @ tuple_items ss"

fun jtype_str :: "jtype \<Rightarrow> string" where
  "jtype_str (Single s) = s"
| "jtype_str (Multi ss) =
     (if length ss = 1 then ''('' @ tuple_items ss @ '',)'' else ''('' @ tuple_items ss @ '')'')"

fun array_in :: "jtype \<Rightarrow> bool" where
  "array_in (Single s) = py_contains ''array'' s"
| "array_in (Multi ss) = (''array'' \<in> set ss)"

record ParamType =
  pt_type :: jtype
  pt_comment :: string
  pt_pattern :: string

definition ParamType :: "jtype \<Rightarrow> string \<Rightarrow> string \<Rightarrow> ParamType" where
  "ParamType t c p = \<lparr>pt_type = t, pt_comment = c, pt_pattern = p\<rparr>"

definition datetimePattern :: string where
  "datetimePattern = ''^[0-9]{4}-[0-9]{2}-[0-9]{2} [0-9]{2}:[0-9]{2}(:[0-9]{2})?$''"

definition paramTypeMapping_items :: "(string \<times> ParamType) list" where
  "paramTypeMapping_items =
    [(''any'', ParamType (Single '''') '''' ''''),
     (''str'', ParamType (Single ''string'') '''' ''''),
     (''srt'', ParamType (Single ''string'') '''' ''''),
     (''str_int'', ParamType (Single ''string'') '''' ''^[0-9]+$''),
     (''int'', ParamType (Single ''number'') '''' ''''),
     (''float'', ParamType (Single ''number'') '''' ''''),
     (''str_float'', ParamType (Single ''str'') ''float as string'' ''''),
     (''datetime'', ParamType (Single ''string'') ''datetime'' datetimePattern),
     (''datetime, float'', ParamType (Multi [''string'', ''number'']) ''datetime or number'' ''''),
     (''datetime, null'',
        ParamType (Multi [''string'', ''null'']) ''datetime or null'' datetimePattern),
     (''bool'', ParamType (Single ''boolean'') '''' ''''),
     (''true_if_exists'', ParamType (Single ''boolean'') ''true if exists'' ''''),
     (''list'', ParamType (Single ''array'') '''' ''''),
     (''list, str'', ParamType (Multi [''array'', ''string'']) '''' ''''),
     (''dict'', ParamType (Single ''object'') '''' ''''),
     (''null'', ParamType (Single ''null'') '''' ''''),
     (''int, null'', ParamType (Multi [''number'', ''null'']) ''int or null'' ''''),
     (''dynamic'', ParamType (Single '''') ''dynamic type'' ''''),
     (''list, int'', ParamType (Multi [''array'', ''number'']) ''array or int'' ''''),
     (''int, list'', ParamType (Multi [''number'', ''array'']) ''int or array'' ''''),
     (''str, list'', ParamType (Multi [''string'', ''array'']) ''string or array'' '''')]"

definition paramTypeMapping :: "string \<Rightarrow> ParamType option" where
  "paramTypeMapping t = map_of paramTypeMapping_items t"

section \<open>Diagnostics, results and errors\<close>

text \<open>
  Every \<^verbatim>\<open>print\<close> of the source is one constructor of \<open>diag\<close>, carrying the element (or
  the strings) its message shows. A computation returns the diagnostics it printed, in
  order, and either the exception that ended it or its value.
\<close>

datatype diag =
    ChoiceNoValue xml
  | InvalidChoiceValue xml
  | ChoiceNoValues xml
  | ItemNoType xml
  | KeyWithoutValue xml
  | ForgotDynamicKeys
  | ParamTypeEmpty xml
  | ParamNameEmpty xml
  | MethodNoName xml
  | NoInput xml
  | NoOutput xml
  | NoOutputTypeNorValue xml
  | ExpectedChoiceTag xml
  | EmptyValue
  | HandlerNoName
  | NoAuthType xml
  | BadAuthType string string

type_synonym 'a res = "diag list \<times> (pyerr + 'a)"

definition ret :: "'a \<Rightarrow> 'a res" where
  "ret x = ([], Inr x)"

definition raise :: "pyerr \<Rightarrow> 'a res" where
  "raise e = ([], Inl e)"

definition print :: "diag \<Rightarrow> unit res" where
  "print d = ([d], Inr ())"

definition bind_res :: "'a res \<Rightarrow> ('a \<Rightarrow> 'b res) \<Rightarrow> 'b res" where
  "bind_res m f =
     (case m of
        (l, Inl e) \<Rightarrow> (l, Inl e)
      | (l, Inr x) \<Rightarrow> (case f x of (l', r) \<Rightarrow> (l @ l', r)))"

definition print_when :: "bool \<Rightarrow> diag \<Rightarrow> unit res" where
  "print_when b d = (if b then print d else ret ())"

lemma bind_res_cong [fundef_cong]:
  assumes "m = m'" and "\<And>l x. m' = (l, Inr x) \<Longrightarrow> f x = f' x"
  shows "bind_res m f = bind_res m' f'"
  using assms by (cases m') (auto simp: bind_res_def split: sum.splits)

lemma bind_res_simps [simp]:
  "bind_res (l, Inl e) f = (l, Inl e)"
  "bind_res (l, Inr x) f = (l @ fst (f x), snd (f x))"
  "bind_res (ret x) f = f x"
  "bind_res (raise e) f = raise e"
  by (simp_all add: bind_res_def ret_def raise_def split: prod.splits)

section \<open>Choice parameters\<close>

text \<open>
  The value of one \<^verbatim>\<open><choice>\<close> child (lines 99 to 106): \<^verbatim>\<open>int(value)\<close> when the
  child has \<^verbatim>\<open>type="int"\<close>, where a non-numeric value raises \<^verbatim>\<open>ValueError\<close>; the
  string itself otherwise, with a diagnostic for a type other than \<^verbatim>\<open>int\<close> and
  \<^verbatim>\<open>str\<close>.
\<close>

definition choiceValue :: "xml \<Rightarrow> string \<Rightarrow> pyval res" where
  "choiceValue choiceElem v =
     (let ty = attr_get choiceElem ''type'' in
      if truthy ty then
        (if ty = Some ''int'' then
           (case py_int v of None \<Rightarrow> raise ValueError | Some i \<Rightarrow> ret (PInt i))
         else if ty = Some ''str'' then ret (PStr v)
         else bind_res (print (InvalidChoiceValue choiceElem)) (\<lambda>_. ret (PStr v)))
      else ret (PStr v))"

text \<open>
  The loop of \<^verbatim>\<open>getChoiceJsonParam\<close> over the children, with its three variables
  \<^verbatim>\<open>values\<close>, \<^verbatim>\<open>comments\<close> and \<^verbatim>\<open>default\<close>. The value \<open>None\<close> is the early
  \<^verbatim>\<open>return\<close> of the function.
\<close>

fun choiceLoop ::
  "xml list \<Rightarrow> pyval list \<Rightarrow> pydict \<Rightarrow> pyval option
     \<Rightarrow> (pyval list \<times> pydict \<times> pyval option) option res" where
  "choiceLoop [] vals comments dflt = ret (Some (vals, comments, dflt))"
| "choiceLoop (choiceElem # rest) vals comments dflt =
     (if tag choiceElem \<noteq> ''choice'' then ret None
      else case attr_get choiceElem ''value'' of
        None \<Rightarrow> bind_res (print (ChoiceNoValue choiceElem)) (\<lambda>_. ret None)
      | Some v \<Rightarrow>
          bind_res (choiceValue choiceElem v) (\<lambda>val.
            let comment = attr_get choiceElem ''comment'';
                comments' = (if truthy comment
                             then dict_set val (opt_str comment) comments else comments);
                dflt' = (if truthy (attr_get choiceElem ''default'') then Some val else dflt)
            in choiceLoop rest (vals @ [val]) comments' dflt'))"

text \<open>
  The coercion of the default (lines 122 to 128): \<^verbatim>\<open>"true"\<close> and \<^verbatim>\<open>"false"\<close> become
  booleans; otherwise \<^verbatim>\<open>int(default)\<close> is tried and a \<^verbatim>\<open>ValueError\<close> leaves the value
  as it is.
\<close>

definition coerceDefault :: "pyval \<Rightarrow> pyval res" where
  "coerceDefault d =
     (if d = PStr ''true'' \<or> d = PStr ''false'' then ret (PBool (d = PStr ''true''))
      else case py_int_of d of
             Inr i \<Rightarrow> ret (PInt i)
           | Inl ValueError \<Rightarrow> ret d
           | Inl e \<Rightarrow> raise e)"

definition getChoiceJsonParam :: "xml \<Rightarrow> pydict option res" where
  "getChoiceJsonParam param =
     (let paramName = attr_get param ''name'';
          description = attr_get param ''comment''
      in bind_res (choiceLoop (getchildren param) [] [] None) (\<lambda>r.
           case r of
             None \<Rightarrow> ret None
           | Some (vals, comments, dflt) \<Rightarrow>
               bind_res (print_when (vals = []) (ChoiceNoValues param)) (\<lambda>_.
                 let paramJson = [];
                     paramJson = (if truthy paramName
                                  then dict_set (PStr ''name'') (opt_str paramName) paramJson
                                  else paramJson);
                     paramJson = (if description \<noteq> None
                                  then dict_set (PStr ''description'') (opt_str description) paramJson
                                  else paramJson);
                     paramJson = dict_set (PStr ''enum'') (PList vals) paramJson
                 in bind_res
                      (case dflt of
                         None \<Rightarrow> ret paramJson
                       | Some d \<Rightarrow>
                           bind_res (coerceDefault d) (\<lambda>d'.
                             ret (dict_set (PStr ''default'') d' paramJson)))
                      (\<lambda>paramJson.
                         ret (Some (if comments \<noteq> []
                                    then dict_set (PStr ''value_comment'') (PDict comments) paramJson
                                    else paramJson))))))"

section \<open>Lists, dictionaries and the generic parameter builder\<close>

text \<open>
  \<^verbatim>\<open>d.update(v)\<close> for a value \<open>v\<close> read back out of a dictionary. The values the
  converter stores under \<^verbatim>\<open>"schema"\<close> are dictionaries; any other value is rejected
  with \<^verbatim>\<open>TypeError\<close>.
\<close>

fun py_update :: "pydict \<Rightarrow> pyval \<Rightarrow> pydict res" where
  "py_update d (PDict other) = ret (dict_update d other)"
| "py_update d _ = raise TypeError"

text \<open>
  \<^verbatim>\<open>if "schema" in p: p.update(p.pop("schema"))\<close> (lines 155 to 156 and 218 to 219).
\<close>

definition flattenSchema :: "pydict \<Rightarrow> pydict res" where
  "flattenSchema p =
     (case dict_get p (PStr ''schema'') of
        None \<Rightarrow> ret p
      | Some s \<Rightarrow> py_update (dict_del (PStr ''schema'') p) s)"

fun flattenSchemas :: "pydict list \<Rightarrow> pydict list res" where
  "flattenSchemas [] = ret []"
| "flattenSchemas (p # ps) =
     bind_res (flattenSchema p) (\<lambda>p'.
       bind_res (flattenSchemas ps) (\<lambda>ps'. ret (p' # ps')))"

text \<open>
  The property built from a converted parameter whose name is already removed (lines 227
  to 235 and 393 to 399): the description becomes the title, the schema is flattened in,
  and the remaining keys follow.
\<close>

definition propertyOf :: "pydict \<Rightarrow> pydict res" where
  "propertyOf subParam =
     (let title = (case dict_get subParam (PStr ''description'') of
                     None \<Rightarrow> PStr [] | Some t \<Rightarrow> t);
          subParam = dict_del (PStr ''description'') subParam;
          prop = [(PStr ''title'', title)]
      in case dict_get subParam (PStr ''schema'') of
           None \<Rightarrow> ret (dict_update prop subParam)
         | Some s \<Rightarrow>
             bind_res (py_update prop s) (\<lambda>prop.
               ret (dict_update prop (dict_del (PStr ''schema'') subParam))))"

text \<open>\<^verbatim>\<open>d.pop("name")\<close> and \<^verbatim>\<open>del d["name"]\<close>: \<^verbatim>\<open>KeyError\<close> when the key is absent.\<close>

definition popName :: "pydict \<Rightarrow> (pyval \<times> pydict) res" where
  "popName d =
     (case dict_get d (PStr ''name'') of
        None \<Rightarrow> raise KeyError
      | Some n \<Rightarrow> ret (n, dict_del (PStr ''name'') d))"

text \<open>The loop of \<^verbatim>\<open>setDictParamsSchema\<close> over the converted sub-parameters.\<close>

fun propertiesLoop :: "pydict list \<Rightarrow> pydict \<Rightarrow> pydict res" where
  "propertiesLoop [] properties = ret properties"
| "propertiesLoop (subParam # rest) properties =
     bind_res (popName subParam) (\<lambda>(name, subParam).
       bind_res (propertyOf subParam) (\<lambda>prop.
         propertiesLoop rest (dict_set name (PDict prop) properties)))"

definition addParamExtraAttrs :: "xml \<Rightarrow> pydict \<Rightarrow> pydict" where
  "addParamExtraAttrs param paramJson =
     (let dflt = attr_get param ''default'' in
      if dflt \<noteq> None then
        dict_set (PStr ''default'') (opt_str dflt)
          (dict_set (PStr ''required'') (PBool False) paramJson)
      else if truthy (attr_get param ''optional'') then
        dict_set (PStr ''required'') (PBool False) paramJson
      else paramJson)"

text \<open>\<^verbatim>\<open>paramTypeMapping[t]\<close>: \<^verbatim>\<open>KeyError\<close> for a tag that is not in the table.\<close>

definition lookupType :: "string \<Rightarrow> ParamType res" where
  "lookupType t = (case paramTypeMapping t of None \<Rightarrow> raise KeyError | Some nt \<Rightarrow> ret nt)"

lemma size_getchildren: "c \<in> set (getchildren e) \<Longrightarrow> size c < size e"
  by (cases e) (auto simp: less_Suc_eq_le size_list_estimation')

lemma size_list_getchildren: "size_list size (getchildren e) < size e"
  by (cases e) simp

lemma size_list_filter_le: "size_list f (filter P xs) \<le> size_list f xs"
  by (induction xs) auto

lemma size_list_findall: "size_list size (findall t e) < size e"
  using size_list_filter_le [of size "\<lambda>c. tag c = t" "getchildren e"] size_list_getchildren [of e]
  by (simp add: findall_def)

lemma size_findall: "c \<in> set (findall t e) \<Longrightarrow> size c < size e"
  by (auto simp: findall_def intro: size_getchildren)

lemma size_hd_findall: "findall t e \<noteq> [] \<Longrightarrow> size (hd (findall t e)) < size e"
  by (rule size_findall [of _ t]) simp

lemma size_find_child: "find_child t e = Some c \<Longrightarrow> size c < size e"
  by (rule size_findall [of c t e]) (auto simp: find_child_def split: list.splits)

function getListItemSchema :: "xml \<Rightarrow> pydict option res"
  and getMultiTypeLoop :: "nat \<Rightarrow> xml list \<Rightarrow> pydict list res"
  and getMultiTypeListItemSchema :: "xml list \<Rightarrow> pydict list res"
  and getListSchema :: "xml \<Rightarrow> jtype \<Rightarrow> pydict res"
  and setDynamicKeys :: "xml \<Rightarrow> pydict \<Rightarrow> pydict res"
  and setDictParamsSchema :: "xml \<Rightarrow> pydict \<Rightarrow> pydict res"
  and getJsonParam :: "xml \<Rightarrow> pydict option res"
  and getParamsLoop :: "xml list \<Rightarrow> pydict list res"
  and getParams :: "xml \<Rightarrow> pydict list res"
where
  "getListItemSchema item =
     (let ty = attr_get item ''type'' in
      if \<not> truthy ty then bind_res (print (ItemNoType item)) (\<lambda>_. ret None)
      else if ty = Some ''choice'' then
        (let itemJson = [(PStr ''title'', PStr (attr_get_or item ''comment'' []))] in
         bind_res (getChoiceJsonParam item) (\<lambda>tmpItem.
           case tmpItem of
             None \<Rightarrow> ret None
           | Some tmpItem \<Rightarrow>
               ret (Some (dict_del (PStr ''description'') (dict_update itemJson tmpItem)))))
      else if ty = Some ''dict'' then
        bind_res (getParams item) (\<lambda>params.
          bind_res (flattenSchemas params) (\<lambda>params.
            let res = [(PStr ''title'', PStr (attr_get_or item ''comment'' [])),
                       (PStr ''type'', PStr ''object'')];
                res = (if attr_get item ''dynamic_keys'' = Some ''true''
                       then dict_set (PStr ''dynamic_keys'') (PBool True) res else res);
                res = dict_set (PStr ''params'') (PList (map PDict params)) res
            in ret (Some res)))
      else ret (Some [(PStr ''title'', PStr (attr_get_or item ''comment'' [])),
                      (PStr ''type'', opt_str ty)]))"
| "getMultiTypeLoop index [] = ret []"
| "getMultiTypeLoop index (item # items) =
     bind_res (getListItemSchema item) (\<lambda>schema2.
       bind_res (getMultiTypeLoop (Suc index) items) (\<lambda>result.
         ret (case schema2 of
                None \<Rightarrow> result
              | Some s2 \<Rightarrow> dict_update [(PStr ''index'', PInt (int index))] s2 # result)))"
| "getMultiTypeListItemSchema items = getMultiTypeLoop 0 items"
| "getListSchema elem newType =
     (let schema = [(PStr ''type'', jtype_val newType)];
          items = findall ''item'' elem
      in bind_res
           (if items \<noteq> [] then
              (if length items > 1 then
                 bind_res (getMultiTypeListItemSchema items) (\<lambda>itemSchema.
                   ret (if itemSchema \<noteq> []
                        then dict_set (PStr ''items'') (PList (map PDict itemSchema)) schema
                        else schema))
               else
                 bind_res (getListItemSchema (hd items)) (\<lambda>itemSchema.
                   ret (case itemSchema of
                          None \<Rightarrow> schema
                        | Some d \<Rightarrow> if d \<noteq> []
                                   then dict_set (PStr ''items'') (PDict d) schema
                                   else schema)))
            else ret schema)
           (\<lambda>schema.
              let len = attr_get elem ''length'' in
              ret (if truthy len \<and> len \<noteq> Some ''-1''
                   then dict_set (PStr ''length'') (opt_str len) schema else schema)))"
| "setDynamicKeys param schema =
     (let schema = dict_set (PStr ''dynamic_keys'') (PBool True) schema in
      case find_child ''key'' param of
        None \<Rightarrow> ret schema
      | Some key \<Rightarrow>
          (case find_child ''value'' param of
             None \<Rightarrow> bind_res (print (KeyWithoutValue param)) (\<lambda>_. ret schema)
           | Some val \<Rightarrow>
               (let schema = dict_set (PStr ''__key__'')
                      (PDict [(PStr ''type'', PStr (attr_get_or key ''type'' [])),
                              (PStr ''title'', PStr (attr_get_or key ''comment'' []))]) schema
                in bind_res (getJsonParam val) (\<lambda>valueJson.
                     case valueJson of
                       None \<Rightarrow> raise TypeError
                     | Some valueJson \<Rightarrow>
                         bind_res (flattenSchema valueJson) (\<lambda>valueJson.
                           ret (dict_set (PStr ''__value__'') (PDict valueJson) schema))))))"
| "setDictParamsSchema param schema =
     bind_res (getParams param) (\<lambda>subParams.
       bind_res (propertiesLoop subParams []) (\<lambda>properties.
         bind_res
           (if attr_get param ''dynamic_keys'' = Some ''true'' then setDynamicKeys param schema
            else if find_child ''key'' param \<noteq> None
                 then bind_res (print ForgotDynamicKeys) (\<lambda>_. ret schema)
                 else ret schema)
           (\<lambda>schema. ret (dict_set (PStr ''properties'') (PDict properties) schema))))"
| "getJsonParam param =
     (let paramName = attr_get param ''name'';
          paramType = attr_get param ''type''
      in bind_res (print_when (\<not> truthy paramType) (ParamTypeEmpty param)) (\<lambda>_.
           if paramType = Some ''choice'' then getChoiceJsonParam param
           else
             let description = attr_get_or param ''comment'' [];
                 paramValue = attr_get param ''value''
             in bind_res
                  (if truthy paramType then lookupType (attr_get_or param ''type'' [])
                   else ret (ParamType (Single []) [] []))
                  (\<lambda>newType.
                     if truthy paramValue then
                       ret (Some (addParamExtraAttrs param
                         [(PStr ''name'', opt_str paramName),
                          (PStr ''description'', PStr description),
                          (PStr ''enum'', PList [opt_str paramValue])]))
                     else
                       let description = (if pt_comment newType \<noteq> []
                                          then pt_comment newType @ '', '' @ description
                                          else description)
                       in bind_res
                            (if array_in (pt_type newType)
                             then getListSchema param (pt_type newType)
                             else ret [(PStr ''type'', jtype_val (pt_type newType))])
                            (\<lambda>schema.
                               bind_res
                                 (if pt_pattern newType \<noteq> []
                                  then ret (dict_set (PStr ''pattern'')
                                              (PStr (pt_pattern newType)) schema)
                                  else if paramType = Some ''dict''
                                       then setDictParamsSchema param schema
                                       else ret schema)
                                 (\<lambda>schema.
                                    let paramJson = (if truthy paramName
                                                     then [(PStr ''name'', opt_str paramName)]
                                                     else [])
                                    in ret (Some (addParamExtraAttrs param
                                         (dict_update paramJson
                                            [(PStr ''description'', PStr description),
                                             (PStr ''schema'', PDict schema)]))))))))"
| "getParamsLoop [] = ret []"
| "getParamsLoop (param # rest) =
     (if tag param \<noteq> ''param'' then getParamsLoop rest
      else if \<not> truthy (attr_get param ''name'')
           then bind_res (print (ParamNameEmpty param)) (\<lambda>_. getParamsLoop rest)
           else bind_res (getJsonParam param) (\<lambda>jsonParam.
                  bind_res (getParamsLoop rest) (\<lambda>params.
                    ret (case jsonParam of
                           None \<Rightarrow> params
                         | Some j \<Rightarrow> j # params))))"
| "getParams elem = getParamsLoop (getchildren elem)"
  by pat_completeness auto

termination
proof (relation "measure (\<lambda>x. case x of
    Inl (Inl (Inl item)) \<Rightarrow> 8 * size item + 2
  | Inl (Inl (Inr (index, items))) \<Rightarrow> 8 * size_list size items
  | Inl (Inr (Inl items)) \<Rightarrow> 8 * size_list size items + 1
  | Inl (Inr (Inr (elem, newType))) \<Rightarrow> 8 * size elem + 3
  | Inr (Inl (Inl (param, schema))) \<Rightarrow> 8 * size param + 2
  | Inr (Inl (Inr (param, schema))) \<Rightarrow> 8 * size param + 3
  | Inr (Inr (Inl param)) \<Rightarrow> 8 * size param + 4
  | Inr (Inr (Inr (Inl params))) \<Rightarrow> 8 * size_list size params
  | Inr (Inr (Inr (Inr elem))) \<Rightarrow> 8 * size elem + 1)", goal_cases)
  case (6 elem newType x xa)
  then show ?case using size_list_findall [of "''item''" elem] by simp
next
  case (7 elem newType x xa)
  then show ?case using size_hd_findall [of "''item''" elem] by simp
next
  case (8 param schema x x2 x2a xa)
  then show ?case using size_find_child [of "''value''" param x2a] by simp
next
  case (17 elem)
  then show ?case using size_list_getchildren [of elem] by simp
qed simp_all

declare getListItemSchema.simps [simp del] getMultiTypeListItemSchema.simps [simp del]
  getListSchema.simps [simp del] setDynamicKeys.simps [simp del]
  setDictParamsSchema.simps [simp del] getJsonParam.simps [simp del]
  getParams.simps [simp del]

section \<open>Methods\<close>

text \<open>The loop of \<^verbatim>\<open>getJsonMethod\<close> that collects the values of an output of type
  \<^verbatim>\<open>choice\<close> (lines 370 to 378).\<close>

fun outputChoices :: "xml list \<Rightarrow> pyval list res" where
  "outputChoices [] = ret []"
| "outputChoices (param # rest) =
     (if tag param \<noteq> ''choice''
      then bind_res (print (ExpectedChoiceTag param)) (\<lambda>_. outputChoices rest)
      else let val = attr_get param ''value'' in
           if \<not> truthy val then bind_res (print EmptyValue) (\<lambda>_. outputChoices rest)
           else bind_res (outputChoices rest) (\<lambda>vals. ret (opt_str val # vals)))"

text \<open>The loop of \<^verbatim>\<open>getJsonMethod\<close> over the \<^verbatim>\<open><param>\<close> children of the output
  (lines 382 to 400), with its variable \<^verbatim>\<open>resultParams\<close>.\<close>

fun resultParamsLoop :: "xml list \<Rightarrow> pydict \<Rightarrow> pydict res" where
  "resultParamsLoop [] resultParams = ret resultParams"
| "resultParamsLoop (param # rest) resultParams =
     (if tag param \<noteq> ''param'' then resultParamsLoop rest resultParams
      else let paramName = attr_get param ''name'' in
        if \<not> truthy paramName
        then bind_res (print (ParamNameEmpty param)) (\<lambda>_. resultParamsLoop rest resultParams)
        else bind_res (getJsonParam param) (\<lambda>jsonParamTmp.
               case jsonParamTmp of
                 None \<Rightarrow> resultParamsLoop rest resultParams
               | Some jsonParamTmp \<Rightarrow>
                   bind_res (popName jsonParamTmp) (\<lambda>(_, jsonParamTmp).
                     bind_res (propertyOf jsonParamTmp) (\<lambda>jsonParam.
                       resultParamsLoop rest
                         (dict_set (opt_str paramName) (PDict jsonParam) resultParams)))))"

text \<open>
  The resolution of the output (lines 359 to 380): the result type and the result values.
  A non-empty \<^verbatim>\<open>value\<close> gives the one-element list of values; without a value and
  without a type the method is given up (the value \<open>None\<close>, with a diagnostic). Then a type
  \<^verbatim>\<open>choice\<close> replaces the values by the collected ones, and any other non-empty type is
  looked up in the table.
\<close>

definition resolveOutput :: "xml \<Rightarrow> xml \<Rightarrow> (ParamType \<times> pyval list option) option res" where
  "resolveOutput method outputElem =
     (let outputType = attr_get outputElem ''type'';
          outputValue = attr_get outputElem ''value'';
          resultType = ParamType (Single []) [] [];
          resultValues = (if truthy outputValue then Some [opt_str outputValue] else None)
      in if \<not> truthy outputValue \<and> \<not> truthy outputType
         then bind_res (print (NoOutputTypeNorValue method)) (\<lambda>_. ret None)
         else if outputType = Some ''choice''
         then bind_res (outputChoices (getchildren outputElem)) (\<lambda>vals.
                ret (Some (resultType, Some vals)))
         else if truthy outputType
         then bind_res (lookupType (attr_get_or outputElem ''type'' [])) (\<lambda>resultType.
                ret (Some (resultType, resultValues)))
         else ret (Some (resultType, resultValues)))"

text \<open>The result descriptor (lines 401 to 419).\<close>

definition buildResult :: "string \<Rightarrow> ParamType \<Rightarrow> pyval list option \<Rightarrow> pydict \<Rightarrow> pydict" where
  "buildResult outputComment resultType resultValues resultParams =
     (let resultName =
            (if resultValues \<noteq> None then ''Response (one of following values)''
             else if jtype_truthy (pt_type resultType)
             then ''Response ('' @ jtype_str (pt_type resultType) @ '')''
             else []);
          result = [(PStr ''name'', PStr resultName), (PStr ''comment'', PStr outputComment)];
          result =
            (if jtype_truthy (pt_type resultType)
             then
               (let resultSchema = [(PStr ''title'', PStr []),
                                    (PStr ''type'', jtype_val (pt_type resultType))];
                    resultSchema = (if resultParams \<noteq> []
                                    then dict_set (PStr ''properties'') (PDict resultParams)
                                           resultSchema
                                    else resultSchema)
                in dict_set (PStr ''schema'') (PDict resultSchema) result)
             else result)
      in case resultValues of
           None \<Rightarrow> result
         | Some vals \<Rightarrow> dict_set (PStr ''enum'') (PList vals) result)"

definition getJsonMethod :: "string \<Rightarrow> xml \<Rightarrow> string list \<Rightarrow> pydict option res" where
  "getJsonMethod handlerName method authTypes =
     (if tag method \<noteq> ''method'' then ret None
      else let methodName = attr_get method ''name'' in
        if \<not> truthy methodName then bind_res (print (MethodNoName method)) (\<lambda>_. ret None)
        else case find_child ''input'' method of
          None \<Rightarrow> bind_res (print (NoInput method)) (\<lambda>_. ret None)
        | Some inputElem \<Rightarrow>
           (case find_child ''output'' method of
              None \<Rightarrow> bind_res (print (NoOutput method)) (\<lambda>_. ret None)
            | Some outputElem \<Rightarrow>
                bind_res (getParams inputElem) (\<lambda>params.
                  let jsonMethod =
                        [(PStr ''name'', PStr (handlerName @ ''.'' @ attr_get_or method ''name'' [])),
                         (PStr ''description'', PStr (attr_get_or method ''comment'' [])),
                         (PStr ''auth_type'', PList (map PStr authTypes))];
                      requires_perm = attr_get method ''requires_perm'';
                      jsonMethod = (if truthy requires_perm
                                    then dict_set (PStr ''requires_perm'') (opt_str requires_perm)
                                           jsonMethod
                                    else jsonMethod);
                      jsonMethod = dict_set (PStr ''params'') (PList (map PDict params)) jsonMethod;
                      outputComment = attr_get_or outputElem ''comment'' []
                  in bind_res (resolveOutput method outputElem) (\<lambda>resolved.
                       case resolved of
                         None \<Rightarrow> ret None
                       | Some (resultType, resultValues) \<Rightarrow>
                           bind_res (resultParamsLoop (getchildren outputElem) [])
                             (\<lambda>resultParams.
                                ret (Some (dict_set (PStr ''result'')
                                  (PDict (buildResult outputComment resultType resultValues
                                            resultParams))
                                  jsonMethod)))))))"

section \<open>Handlers and the output directory\<close>

text \<open>
  The part of the file system the converter touches: the directories that exist and the
  files with their contents. \<^verbatim>\<open>os.makedirs(p, exist_ok=True)\<close> makes \<open>p\<close> a directory
  and leaves an existing one alone; writing a file binds its path to the data handed to
  \<^verbatim>\<open>json.dumps\<close> (the JSON text itself is not modelled). Only the directory asked for is
  recorded, not the missing parents that \<^verbatim>\<open>os.makedirs\<close> creates on the way, and
  failures of the operating system (permissions, a full disk, a file name that names a
  missing directory) are outside the model.
\<close>

record filesys =
  dirs :: "string set"
  files :: "string \<Rightarrow> pyval option"

definition makedirs :: "string \<Rightarrow> filesys \<Rightarrow> filesys" where
  "makedirs p fs = fs\<lparr>dirs := insert p (dirs fs)\<rparr>"

definition write_file :: "string \<Rightarrow> pyval \<Rightarrow> filesys \<Rightarrow> filesys" where
  "write_file p data fs = fs\<lparr>files := (files fs)(p \<mapsto> data)\<rparr>"

text \<open>The access levels of a method with \<^verbatim>\<open>auth_type\<close> present (lines 442 to 448).\<close>

definition knownAuthTypes :: "string list" where
  "knownAuthTypes = [''ADMIN'', ''NORMAL_USER'', ''VOIP_USER'', ''ANONYMOUS'']"

definition authTypesOf :: "string \<Rightarrow> string list res" where
  "authTypesOf authTypesStr =
     (if authTypesStr \<noteq> [] then
        (let authTypes = map py_strip (py_split CHR '','' authTypesStr)
         in (map (\<lambda>authType. BadAuthType authType authTypesStr)
               (filter (\<lambda>authType. authType \<notin> set knownAuthTypes) authTypes),
             Inr authTypes))
      else ret [''ADMIN'', ''NORMAL_USER'', ''VOIP_USER''])"

text \<open>
  The loop of \<^verbatim>\<open>convertSubsystem\<close> over the children of a handler, with its variable
  \<^verbatim>\<open>methods\<close>. The value \<open>None\<close> is the \<^verbatim>\<open>return\<close> at a method without
  \<^verbatim>\<open>auth_type\<close>, which leaves the function before the file is written.
\<close>

fun methodsLoop :: "string \<Rightarrow> xml list \<Rightarrow> pydict list \<Rightarrow> pydict list option res" where
  "methodsLoop handlerName [] methods = ret (Some methods)"
| "methodsLoop handlerName (method # rest) methods =
     (if tag method \<noteq> ''method'' then methodsLoop handlerName rest methods
      else case attr_get method ''auth_type'' of
        None \<Rightarrow> bind_res (print (NoAuthType method)) (\<lambda>_. ret None)
      | Some authTypesStr \<Rightarrow>
          bind_res (authTypesOf authTypesStr) (\<lambda>authTypes.
            bind_res (getJsonMethod handlerName method authTypes) (\<lambda>jsonMethod.
              case jsonMethod of
                None \<Rightarrow> methodsLoop handlerName rest methods
              | Some j \<Rightarrow> methodsLoop handlerName rest (methods @ [j]))))"

definition document :: "string \<Rightarrow> string \<Rightarrow> pydict list \<Rightarrow> pyval" where
  "document branch handlerName methods =
     PDict [(PStr ''openrpc'', PStr ''1.2.1''),
            (PStr ''info'',
               PDict [(PStr ''version'', PStr ''1.0.0''),
                      (PStr ''title'', PStr (''IBSng: branch '' @ branch @ '': '' @ handlerName))]),
            (PStr ''methods'', PList (map PDict methods))]"

text \<open>
  \<^verbatim>\<open>convertSubsystem\<close> returns the file system it leaves behind, the diagnostics it
  printed and, when an exception ended it, the exception.
\<close>

definition convertSubsystem :: "xml \<Rightarrow> string \<Rightarrow> string \<Rightarrow> filesys \<Rightarrow> filesys \<times> unit res" where
  "convertSubsystem handler branch outDir fs =
     (let handlerName = attr_get handler ''name'' in
      if \<not> truthy handlerName then (fs, print HandlerNoName)
      else
        let handlerName = attr_get_or handler ''name'' [];
            branchDir = join outDir branch;
            fs = makedirs branchDir fs
        in case methodsLoop handlerName (getchildren handler) [] of
             (l, Inl e) \<Rightarrow> (fs, (l, Inl e))
           | (l, Inr None) \<Rightarrow> (fs, (l, Inr ()))
           | (l, Inr (Some methods)) \<Rightarrow>
               (write_file (join branchDir (handlerName @ ''.json''))
                  (document branch handlerName methods) fs,
                (l, Inr ())))"

text \<open>
  \<^verbatim>\<open>convert\<close> on the parsed document: the handlers are converted in document order, and
  an exception in one of them ends the run.
\<close>

fun convertLoop :: "xml list \<Rightarrow> string \<Rightarrow> string \<Rightarrow> filesys \<Rightarrow> filesys \<times> unit res" where
  "convertLoop [] branch outDir fs = (fs, ret ())"
| "convertLoop (handler # rest) branch outDir fs =
     (if tag handler \<noteq> ''handler'' then convertLoop rest branch outDir fs
      else case convertSubsystem handler branch outDir fs of
             (fs', (l, Inl e)) \<Rightarrow> (fs', (l, Inl e))
           | (fs', (l, Inr _)) \<Rightarrow>
               (case convertLoop rest branch outDir fs' of
                  (fs'', (l', r)) \<Rightarrow> (fs'', (l @ l', r))))"

definition convert :: "xml \<Rightarrow> string \<Rightarrow> string \<Rightarrow> filesys \<Rightarrow> filesys \<times> unit res" where
  "convert doc branch outDir fs = convertLoop (getchildren doc) branch outDir fs"

section \<open>Example documents\<close>

definition ex_bogus_param :: xml where
  "ex_bogus_param = Element ''param'' [(''name'', ''x''), (''type'', ''bogus'')] []"

definition ex_bogus_input :: xml where
  "ex_bogus_input = Element ''input'' [] [ex_bogus_param]"

definition ex_int_output :: xml where
  "ex_int_output = Element ''output'' [(''type'', ''int'')] []"

definition ex_bogus_method :: xml where
  "ex_bogus_method =
     Element ''method'' [(''name'', ''m''), (''auth_type'', [])] [ex_bogus_input, ex_int_output]"

definition ex_bogus_handler :: xml where
  "ex_bogus_handler = Element ''handler'' [(''name'', ''h1'')] [ex_bogus_method]"

definition ex_good_method :: xml where
  "ex_good_method =
     Element ''method'' [(''name'', ''ok''), (''auth_type'', [])]
       [Element ''input'' [] [], ex_int_output]"

definition ex_good_handler :: xml where
  "ex_good_handler = Element ''handler'' [(''name'', ''h2'')] [ex_good_method]"

definition ex_bogus_doc :: xml where
  "ex_bogus_doc = Element ''handlers'' [] [ex_bogus_handler, ex_good_handler]"

definition empty_fs :: filesys where
  "empty_fs = \<lparr>dirs = {}, files = (\<lambda>_. None)\<rparr>"

lemmas ex_defs = ex_bogus_param_def ex_bogus_input_def ex_int_output_def ex_bogus_method_def
  ex_bogus_handler_def ex_good_method_def ex_good_handler_def ex_bogus_doc_def empty_fs_def

definition ex_noauth_method :: xml where
  "ex_noauth_method =
     Element ''method'' [(''name'', ''broken'')] [Element ''input'' [] [], ex_int_output]"

definition ex_noauth_handler :: xml where
  "ex_noauth_handler = Element ''handler'' [(''name'', ''h3'')] [ex_good_method, ex_noauth_method]"

definition ex_unnamed_handler :: xml where
  "ex_unnamed_handler = Element ''handler'' [] [ex_good_method]"

lemmas ex2_defs = ex_noauth_method_def ex_noauth_handler_def ex_unnamed_handler_def

definition ex_notype_method :: xml where
  "ex_notype_method =
     Element ''method'' [(''name'', ''first''), (''auth_type'', [])]
       [Element ''input'' [] [], Element ''output'' [] []]"

definition ex_notype_handler :: xml where
  "ex_notype_handler = Element ''handler'' [(''name'', ''h4'')] [ex_notype_method, ex_good_method]"

lemmas ex4_defs = ex_notype_method_def ex_notype_handler_def

definition ex_both_method :: xml where
  "ex_both_method =
     Element ''method'' [(''name'', ''both''), (''auth_type'', [])]
       [Element ''input'' [] [], Element ''output'' [(''type'', ''int''), (''value'', ''ok'')] []]"

definition ex_value_choice_method :: xml where
  "ex_value_choice_method =
     Element ''method'' [(''name'', ''vc''), (''auth_type'', [])]
       [Element ''input'' [] [],
        Element ''output'' [(''type'', ''choice''), (''value'', ''ok'')]
          [Element ''choice'' [(''value'', ''a'')] []]]"

lemmas ex5_defs = ex_both_method_def ex_value_choice_method_def

definition ex_choice_param :: xml where
  "ex_choice_param =
     Element ''param'' [(''name'', ''mode''), (''type'', ''choice'')]
       [Element ''choice'' [(''value'', ''a''), (''default'', ''1'')] [],
        Element ''choice'' [(''value'', ''b'')] []]"

definition ex_bad_int_choice :: xml where
  "ex_bad_int_choice =
     Element ''param'' [(''name'', ''mode''), (''type'', ''choice'')]
       [Element ''choice'' [(''type'', ''int''), (''value'', ''abc'')] []]"

lemmas ex6_defs = ex_choice_param_def ex_bad_int_choice_def

definition ex_list_param :: xml where
  "ex_list_param =
     Element ''param'' [(''name'', ''ids''), (''type'', ''list'')]
       [Element ''item'' [(''type'', ''int'')] []]"

definition ex_list_length :: "string \<Rightarrow> xml" where
  "ex_list_length len = Element ''param'' [(''name'', ''ids''), (''type'', ''list''), (''length'', len)] []"

lemmas ex8_defs = ex_list_param_def ex_list_length_def

definition ex_dyn_param :: xml where
  "ex_dyn_param =
     Element ''param'' [(''name'', ''d''), (''type'', ''dict''), (''dynamic_keys'', ''true'')]
       [Element ''key'' [(''type'', ''str''), (''comment'', ''k'')] [],
        Element ''value'' [(''type'', ''int'')] []]"

definition ex_key_only_param :: xml where
  "ex_key_only_param =
     Element ''param'' [(''name'', ''d''), (''type'', ''dict''), (''dynamic_keys'', ''true'')]
       [Element ''key'' [(''type'', ''str''), (''comment'', ''k'')] []]"

definition ex_dyn_value_param :: xml where
  "ex_dyn_value_param =
     Element ''param'' [(''name'', ''d''), (''type'', ''dict''), (''dynamic_keys'', ''true'')]
       [Element ''key'' [(''type'', ''str'')] [],
        Element ''value'' [(''type'', ''int''), (''value'', ''5'')] []]"

lemmas ex7_defs = ex_dyn_param_def ex_key_only_param_def ex_dyn_value_param_def

section \<open>Facts about dictionaries and the table\<close>

lemma dict_get_set: "dict_get (dict_set k v d) k' = (if k' = k then Some v else dict_get d k')"
  by (induction d) (auto simp: dict_get_def)

lemma dict_has_set: "dict_has (dict_set k v d) k' = (k' = k \<or> dict_has d k')"
  by (simp add: dict_has_def dict_get_set)

lemma dict_get_Nil: "dict_get [] k = None"
  by (simp add: dict_get_def)

lemma dict_get_Cons: "dict_get ((k, v) # d) k' = (if k' = k then Some v else dict_get d k')"
  by (simp add: dict_get_def)

lemma dict_update_Nil: "dict_update d [] = d"
  by (simp add: dict_update_def)

lemma dict_update_Cons: "dict_update d ((k, v) # other) = dict_update (dict_set k v d) other"
  by (simp add: dict_update_def)

lemmas dict_simps = dict_get_set dict_has_set dict_get_Nil dict_get_Cons dict_update_Nil
  dict_update_Cons

lemma dict_get_addParamExtraAttrs:
  "k \<noteq> PStr ''default'' \<Longrightarrow> k \<noteq> PStr ''required'' \<Longrightarrow>
   dict_get (addParamExtraAttrs param d) k = dict_get d k"
  by (simp add: addParamExtraAttrs_def Let_def dict_get_set)

lemma paramTypeMapping_cases:
  assumes "paramTypeMapping t = Some nt"
  shows "(t, nt) \<in> set paramTypeMapping_items"
  using assms unfolding paramTypeMapping_def by (rule map_of_SomeD)

lemma table_check:
  "list_all (\<lambda>(t, nt). t \<noteq> [] \<and> t \<noteq> ''choice'' \<and>
      (case pt_type nt of
         Single s \<Rightarrow> (array_in (Single s) \<longrightarrow> s = ''array'') \<and> (t = ''dict'' \<longrightarrow> s = ''object'')
       | Multi ss \<Rightarrow> t \<noteq> ''dict''))
     paramTypeMapping_items"
  by (simp add: paramTypeMapping_items_def ParamType_def)

lemma table_scalar:
  assumes "paramTypeMapping t = Some nt" "pt_type nt = Single s" "s \<noteq> ''array''" "s \<noteq> ''object''"
  shows "t \<noteq> []" "t \<noteq> ''choice''" "t \<noteq> ''dict''" "\<not> array_in (pt_type nt)"
  using paramTypeMapping_cases [OF assms(1)] assms(2-4) table_check
  by (auto simp: list_all_iff)

lemmas attr_defs = attr_get_def attr_get_or_def truthy_def opt_str_def

lemmas res_defs = ret_def raise_def print_def print_when_def

lemmas eval_defs = attr_get_def attr_get_or_def truthy_def opt_str_def find_child_def
  findall_def ret_def raise_def print_def print_when_def lookupType_def paramTypeMapping_def
  paramTypeMapping_items_def ParamType_def Let_def dict_update_def dict_get_def dict_has_def
  dict_del_def getParams.simps getJsonParam.simps getListSchema.simps getListItemSchema.simps
  getMultiTypeListItemSchema.simps setDynamicKeys.simps setDictParamsSchema.simps
  getJsonMethod_def resolveOutput_def buildResult_def getChoiceJsonParam_def choiceValue_def coerceDefault_def
  addParamExtraAttrs_def flattenSchema_def propertyOf_def popName_def authTypesOf_def
  convertSubsystem_def convert_def makedirs_def write_file_def join_def document_def

section \<open>Scalar parameters\<close>

text \<open>
  C1. A \<^verbatim>\<open><param>\<close> whose \<^verbatim>\<open>type\<close> is a key of the table that maps to one scalar JSON
  type (a single string, neither \<^verbatim>\<open>array\<close> nor \<^verbatim>\<open>object\<close>) and that has no
  \<^verbatim>\<open>value\<close> attribute is converted, without a diagnostic, to an object whose schema has
  the mapped type under \<^verbatim>\<open>type\<close>, and has a \<^verbatim>\<open>pattern\<close> key exactly when the table
  entry declares a non-empty pattern (the pattern of the entry).
\<close>

theorem C1_scalar_param_schema:
  assumes "attr_get param ''type'' = Some t"
    and "paramTypeMapping t = Some nt"
    and "pt_type nt = Single s" and "s \<noteq> ''array''" and "s \<noteq> ''object''"
    and "attr_get param ''value'' = None"
  shows "\<exists>obj schema.
           getJsonParam param = ([], Inr (Some obj))
         \<and> dict_get obj (PStr ''schema'') = Some (PDict schema)
         \<and> dict_get schema (PStr ''type'') = Some (PStr s)
         \<and> (dict_has schema (PStr ''pattern'') \<longleftrightarrow> pt_pattern nt \<noteq> [])
         \<and> (pt_pattern nt \<noteq> [] \<longrightarrow>
              dict_get schema (PStr ''pattern'') = Some (PStr (pt_pattern nt)))"
proof -
  note ts = table_scalar [OF assms(2-5)]
  have ty: "attr_get_or param ''type'' [] = t" "truthy (attr_get param ''type'')"
    using assms(1) ts(1) by (simp_all add: attr_get_or_def truthy_def)
  show ?thesis
    apply (subst getJsonParam.simps)
    using assms ts ty
    apply (simp add: Let_def print_when_def lookupType_def truthy_def ret_def
        dict_get_addParamExtraAttrs dict_simps dict_has_def)
    done
qed

theorem C1_scalar_param_schema_witness:
  "\<exists>obj schema.
     getJsonParam (Element ''param'' [(''name'', ''since''), (''type'', ''datetime'')] [])
       = ([], Inr (Some obj))
   \<and> dict_get obj (PStr ''schema'') = Some (PDict schema)
   \<and> dict_get schema (PStr ''type'') = Some (PStr ''string'')
   \<and> dict_has schema (PStr ''pattern'')
   \<and> dict_get schema (PStr ''pattern'') = Some (PStr datetimePattern)"
  using C1_scalar_param_schema
    [of "Element ''param'' [(''name'', ''since''), (''type'', ''datetime'')] []"
        "''datetime''" "ParamType (Single ''string'') ''datetime'' datetimePattern" "''string''"]
  by (simp add: attr_get_def paramTypeMapping_def paramTypeMapping_items_def ParamType_def
      datetimePattern_def)

section \<open>Sequencing and the loops\<close>

lemma bind_res_assoc:
  "bind_res (bind_res m f) g = bind_res m (\<lambda>x. bind_res (f x) g)"
  by (auto simp: bind_res_def split: prod.splits sum.splits)

lemma bind_res_ret_right: "bind_res m ret = m"
  by (auto simp: bind_res_def ret_def split: prod.splits sum.splits)

lemma bind_res_print: "bind_res (print d) f = (d # fst (f ()), snd (f ()))"
  by (simp add: print_def)

lemma snd_bind_res_Inl: "snd m = Inl e \<Longrightarrow> snd (bind_res m f) = Inl e"
  by (cases m) (simp add: bind_res_def)

lemma snd_bind_res_Inr: "snd m = Inr x \<Longrightarrow> snd (bind_res m f) = snd (f x)"
  by (cases m) (simp add: bind_res_def split: prod.splits)

lemma bind_res_Inl: "m = (l, Inl e) \<Longrightarrow> bind_res m f = (l, Inl e)"
  by simp

lemma getParamsLoop_append:
  "getParamsLoop (xs @ ys) =
     bind_res (getParamsLoop xs) (\<lambda>a. bind_res (getParamsLoop ys) (\<lambda>b. ret (a @ b)))"
proof (induction xs)
  case Nil
  show ?case by (simp add: bind_res_ret_right)
next
  case (Cons x xs)
  have "bind_res (getJsonParam x) (\<lambda>jp. bind_res (getParamsLoop xs) (\<lambda>a.
          bind_res (getParamsLoop ys) (\<lambda>b.
            ret (case jp of None \<Rightarrow> a @ b | Some j \<Rightarrow> j # a @ b))))
      = bind_res (getJsonParam x) (\<lambda>jp. bind_res (getParamsLoop xs) (\<lambda>a.
          bind_res (getParamsLoop ys) (\<lambda>b.
            ret ((case jp of None \<Rightarrow> a | Some j \<Rightarrow> j # a) @ b))))"
    by (intro arg_cong2 [where f = bind_res] ext refl) (simp split: option.splits)
  then show ?case
    by (simp add: Cons bind_res_assoc)
qed

lemma bind_res_case_option:
  "bind_res (case x of None \<Rightarrow> a | Some y \<Rightarrow> b y) k
     = (case x of None \<Rightarrow> bind_res a k | Some y \<Rightarrow> bind_res (b y) k)"
  by (cases x) simp_all

lemma methodsLoop_append:
  "methodsLoop hn (xs @ ys) acc =
     bind_res (methodsLoop hn xs acc)
       (\<lambda>r. case r of None \<Rightarrow> ret None | Some acc' \<Rightarrow> methodsLoop hn ys acc')"
proof (induction xs arbitrary: acc)
  case Nil
  show ?case by simp
next
  case (Cons x xs)
  show ?case
    by (simp add: Cons bind_res_assoc bind_res_case_option split: option.splits)
qed

lemma convertLoop_append:
  "convertLoop (xs @ ys) branch outDir fs =
     (case convertLoop xs branch outDir fs of
        (fs', (l, Inl e)) \<Rightarrow> (fs', (l, Inl e))
      | (fs', (l, Inr _)) \<Rightarrow>
          (case convertLoop ys branch outDir fs' of (fs'', (l', r)) \<Rightarrow> (fs'', (l @ l', r))))"
proof (induction xs arbitrary: fs)
  case Nil
  show ?case by (simp add: ret_def split: prod.splits)
next
  case (Cons x xs)
  show ?case
    by (auto simp: Cons ret_def split: prod.splits sum.splits)
qed

lemma authTypesOf_returns: "\<exists>l ats. authTypesOf a = (l, Inr ats)"
  by (simp add: authTypesOf_def ret_def Let_def)

text \<open>The lookup of an unknown type tag in \<^verbatim>\<open>getJsonParam\<close> (line 273).\<close>

lemma getJsonParam_unknown_type:
  assumes "attr_get e ''type'' = Some t" and "t \<noteq> []" and "t \<noteq> ''choice''"
    and "paramTypeMapping t = None"
  shows "getJsonParam e = ([], Inl KeyError)"
  by (subst getJsonParam.simps)
    (simp add: assms Let_def print_when_def lookupType_def truthy_def attr_get_or_def
      ret_def raise_def)

text \<open>The lookup of an unknown type tag in \<^verbatim>\<open>getJsonMethod\<close> (line 380).\<close>

lemma getJsonMethod_unknown_output_type:
  assumes "attr_get e ''type'' = Some t" and "t \<noteq> []" and "t \<noteq> ''choice''"
    and "paramTypeMapping t = None"
    and "tag m = ''method''" and "truthy (attr_get m ''name'')"
    and "find_child ''input'' m = Some i" and "find_child ''output'' m = Some e"
    and "snd (getParams i) = Inr ps"
  shows "snd (getJsonMethod hn m ats) = Inl KeyError"
  using assms
  by (simp add: getJsonMethod_def resolveOutput_def buildResult_def Let_def lookupType_def truthy_def attr_get_or_def
      snd_bind_res_Inr raise_def)

lemma getJsonMethod_input_raises:
  assumes "tag m = ''method''" and "truthy (attr_get m ''name'')"
    and "find_child ''input'' m = Some i" and "find_child ''output'' m = Some out"
    and "snd (getParams i) = Inl err"
  shows "snd (getJsonMethod hn m ats) = Inl err"
  using assms by (simp add: getJsonMethod_def resolveOutput_def buildResult_def Let_def snd_bind_res_Inl)

lemma getParams_param_raises:
  assumes "getchildren i = pre @ p # post" and "tag p = ''param''"
    and "truthy (attr_get p ''name'')" and "snd (getParamsLoop pre) = Inr ps"
    and "snd (getJsonParam p) = Inl err"
  shows "snd (getParams i) = Inl err"
  using assms
  by (simp add: getParams.simps getParamsLoop_append snd_bind_res_Inr snd_bind_res_Inl)

lemma methodsLoop_method_raises:
  assumes "tag m = ''method''" and "attr_get m ''auth_type'' = Some a"
    and "\<And>ats. snd (getJsonMethod hn m ats) = Inl err"
    and "snd (methodsLoop hn pre []) = Inr (Some acc)"
  shows "snd (methodsLoop hn (pre @ m # post) []) = Inl err"
proof -
  obtain l ats where "authTypesOf a = (l, Inr ats)"
    using authTypesOf_returns by blast
  then show ?thesis
    using assms
    by (simp add: methodsLoop_append snd_bind_res_Inr snd_bind_res_Inl)
qed

lemma convertSubsystem_raises:
  assumes "truthy (attr_get h ''name'')"
    and "snd (methodsLoop (attr_get_or h ''name'' []) (getchildren h) []) = Inl err"
  shows "\<exists>l. convertSubsystem h branch outDir fs
           = (makedirs (join outDir branch) fs, (l, Inl err))"
  using assms
  by (cases "methodsLoop (attr_get_or h ''name'' []) (getchildren h) []")
    (simp add: convertSubsystem_def Let_def)

lemma convert_handler_raises:
  assumes "getchildren doc = pre @ h # post" and "tag h = ''handler''"
    and "convertLoop pre branch outDir fs = (fs1, (l1, Inr ()))"
    and "convertSubsystem h branch outDir fs1 = (fs2, (l2, Inl err))"
  shows "convert doc branch outDir fs = (fs2, (l1 @ l2, Inl err))"
  using assms by (simp add: convert_def convertLoop_append)

section \<open>Unknown type tags\<close>

text \<open>
  C2. Let \<open>e\<close> be an element whose non-empty \<^verbatim>\<open>type\<close> attribute is neither
  \<^verbatim>\<open>choice\<close> nor a key of the type-mapping table. Converting it as a parameter raises
  \<^verbatim>\<open>KeyError\<close>, with no diagnostic and no skipped node. A named method with an input and
  an output raises \<^verbatim>\<open>KeyError\<close> when \<open>e\<close> is its \<^verbatim>\<open><output>\<close> (and its input
  parameters were converted), or when \<open>e\<close> is a named \<^verbatim>\<open><param>\<close> of its
  \<^verbatim>\<open><input>\<close> (and the parameters before it were converted). Nothing catches the
  exception: when the run reaches such a method (the handlers and the methods before it
  neither raise nor abort), \<^verbatim>\<open>convert\<close> ends with \<^verbatim>\<open>KeyError\<close>, and no file is written
  for that handler or for any handler after it.
\<close>

theorem C2_unknown_type_raises_KeyError:
  assumes "attr_get e ''type'' = Some t" and "t \<noteq> []" and "t \<noteq> ''choice''"
    and "paramTypeMapping t = None"
  shows "getJsonParam e = ([], Inl KeyError)
    \<and> (\<forall>m i out hn ats.
          tag m = ''method'' \<and> truthy (attr_get m ''name'')
          \<and> find_child ''input'' m = Some i \<and> find_child ''output'' m = Some out
          \<and> ((out = e \<and> (\<exists>ps. snd (getParams i) = Inr ps))
             \<or> (tag e = ''param'' \<and> truthy (attr_get e ''name'')
                \<and> (\<exists>pre post ps. getchildren i = pre @ e # post
                      \<and> snd (getParamsLoop pre) = Inr ps)))
          \<longrightarrow> snd (getJsonMethod hn m ats) = Inl KeyError)
    \<and> (\<forall>doc branch outDir fs hpre h hpost mpre m mpost i out a acc fs1 l1.
          getchildren doc = hpre @ h # hpost \<and> tag h = ''handler''
          \<and> truthy (attr_get h ''name'')
          \<and> convertLoop hpre branch outDir fs = (fs1, (l1, Inr ()))
          \<and> getchildren h = mpre @ m # mpost
          \<and> snd (methodsLoop (attr_get_or h ''name'' []) mpre []) = Inr (Some acc)
          \<and> tag m = ''method'' \<and> attr_get m ''auth_type'' = Some a
          \<and> truthy (attr_get m ''name'')
          \<and> find_child ''input'' m = Some i \<and> find_child ''output'' m = Some out
          \<and> ((out = e \<and> (\<exists>ps. snd (getParams i) = Inr ps))
             \<or> (tag e = ''param'' \<and> truthy (attr_get e ''name'')
                \<and> (\<exists>pre post ps. getchildren i = pre @ e # post
                      \<and> snd (getParamsLoop pre) = Inr ps)))
          \<longrightarrow> (\<exists>fs' l. convert doc branch outDir fs = (fs', (l, Inl KeyError))
                \<and> files fs' = files fs1))"
proof -
  have param: "getJsonParam e = ([], Inl KeyError)"
    by (rule getJsonParam_unknown_type [OF assms])
  have meth: "snd (getJsonMethod hn m ats) = Inl KeyError"
    if "tag m = ''method''" "truthy (attr_get m ''name'')"
      "find_child ''input'' m = Some i" "find_child ''output'' m = Some out"
      "(out = e \<and> (\<exists>ps. snd (getParams i) = Inr ps))
        \<or> (tag e = ''param'' \<and> truthy (attr_get e ''name'')
            \<and> (\<exists>pre post ps. getchildren i = pre @ e # post
                  \<and> snd (getParamsLoop pre) = Inr ps))"
    for m i out hn ats
    using that(5)
  proof (elim disjE conjE exE)
    fix ps
    assume "out = e" "snd (getParams i) = Inr ps"
    then show ?thesis
      using getJsonMethod_unknown_output_type [OF assms that(1,2,3)] that(4) by simp
  next
    fix pre post ps
    assume "tag e = ''param''" "truthy (attr_get e ''name'')"
      "getchildren i = pre @ e # post" "snd (getParamsLoop pre) = Inr ps"
    then have "snd (getParams i) = Inl KeyError"
      using getParams_param_raises [of i pre e post ps KeyError] param by simp
    then show ?thesis
      by (rule getJsonMethod_input_raises [OF that(1-4)])
  qed
  have run: "\<exists>fs' l. convert doc branch outDir fs = (fs', (l, Inl KeyError))
                \<and> files fs' = files fs1"
    if "getchildren doc = hpre @ h # hpost" "tag h = ''handler''"
      "truthy (attr_get h ''name'')"
      "convertLoop hpre branch outDir fs = (fs1, (l1, Inr ()))"
      "getchildren h = mpre @ m # mpost"
      "snd (methodsLoop (attr_get_or h ''name'' []) mpre []) = Inr (Some acc)"
      "tag m = ''method''" "attr_get m ''auth_type'' = Some a"
      "\<And>ats. snd (getJsonMethod (attr_get_or h ''name'' []) m ats) = Inl KeyError"
    for doc branch outDir fs hpre h hpost mpre m mpost a acc fs1 l1
  proof -
    note H = that
    have "snd (methodsLoop (attr_get_or h ''name'' []) (getchildren h) []) = Inl KeyError"
      unfolding H(5)
      by (rule methodsLoop_method_raises [OF H(7,8,9,6)])
    then obtain l where
      "convertSubsystem h branch outDir fs1
         = (makedirs (join outDir branch) fs1, (l, Inl KeyError))"
      using convertSubsystem_raises [OF H(3)] by blast
    then have "convert doc branch outDir fs
                = (makedirs (join outDir branch) fs1, (l1 @ l, Inl KeyError))"
      by (rule convert_handler_raises [OF H(1,2,4)])
    then show ?thesis by (simp add: makedirs_def)
  qed
  show ?thesis
    apply (intro conjI allI impI)
      apply (rule param)
     apply (elim conjE)
     apply (rule meth; assumption)
    apply (elim conjE)
    apply (rule run, assumption+)
    apply (rule meth; assumption)
    done
qed

theorem C2_unknown_type_raises_KeyError_witness:
  "getJsonParam ex_bogus_param = ([], Inl KeyError)
   \<and> snd (getJsonMethod ''h1'' ex_bogus_method [''ADMIN'']) = Inl KeyError
   \<and> (\<exists>fs' l. convert ex_bogus_doc ''b'' ''out'' empty_fs = (fs', (l, Inl KeyError))
         \<and> files fs' = files empty_fs)"
proof -
  have hyp: "attr_get ex_bogus_param ''type'' = Some ''bogus''" "''bogus'' \<noteq> []"
    "''bogus'' \<noteq> ''choice''" "paramTypeMapping ''bogus'' = None"
    by (simp_all add: ex_defs attr_get_def paramTypeMapping_def paramTypeMapping_items_def)
  note T = C2_unknown_type_raises_KeyError [OF hyp]
  have reach: "\<exists>pre post ps. getchildren ex_bogus_input = pre @ ex_bogus_param # post
                 \<and> snd (getParamsLoop pre) = Inr ps"
    by (rule exI [of _ "[]"], rule exI [of _ "[]"]) (simp add: ex_bogus_input_def ret_def)
  have m: "tag ex_bogus_method = ''method''" "truthy (attr_get ex_bogus_method ''name'')"
    "find_child ''input'' ex_bogus_method = Some ex_bogus_input"
    "find_child ''output'' ex_bogus_method = Some ex_int_output"
    "tag ex_bogus_param = ''param''" "truthy (attr_get ex_bogus_param ''name'')"
    "attr_get ex_bogus_method ''auth_type'' = Some []"
    by (simp_all add: ex_defs attr_get_def truthy_def find_child_def findall_def)
  have h: "getchildren ex_bogus_doc = [] @ ex_bogus_handler # [ex_good_handler]"
    "tag ex_bogus_handler = ''handler''" "truthy (attr_get ex_bogus_handler ''name'')"
    "convertLoop [] ''b'' ''out'' empty_fs = (empty_fs, ([], Inr ()))"
    "getchildren ex_bogus_handler = [] @ ex_bogus_method # []"
    "snd (methodsLoop (attr_get_or ex_bogus_handler ''name'' []) [] []) = Inr (Some [])"
    by (simp_all add: ex_bogus_doc_def ex_bogus_handler_def attr_get_def attr_get_or_def
        truthy_def ret_def)
  have 1: "getJsonParam ex_bogus_param = ([], Inl KeyError)"
    using T by blast
  have 2: "snd (getJsonMethod ''h1'' ex_bogus_method [''ADMIN'']) = Inl KeyError"
    using T [THEN conjunct2, THEN conjunct1, rule_format,
        of ex_bogus_method ex_bogus_input ex_int_output "''h1''" "[''ADMIN'']"] m reach
    by simp
  have 3: "\<exists>fs' l. convert ex_bogus_doc ''b'' ''out'' empty_fs = (fs', (l, Inl KeyError))
         \<and> files fs' = files empty_fs"
    using T [THEN conjunct2, THEN conjunct2, rule_format,
        of ex_bogus_doc "[]" ex_bogus_handler "[ex_good_handler]" "''b''" "''out''" empty_fs
          empty_fs "[]" "[]" ex_bogus_method "[]" "[]" "[]" ex_bogus_input ex_int_output] m h
      reach
    by simp
  show ?thesis using 1 2 3 by blast
qed

section \<open>The output directory\<close>

lemma convertSubsystem_named:
  assumes "truthy (attr_get h ''name'')"
  shows "convertSubsystem h branch outDir fs =
     (case methodsLoop (attr_get_or h ''name'' []) (getchildren h) [] of
        (l, Inl e) \<Rightarrow> (makedirs (join outDir branch) fs, (l, Inl e))
      | (l, Inr None) \<Rightarrow> (makedirs (join outDir branch) fs, (l, Inr ()))
      | (l, Inr (Some methods)) \<Rightarrow>
          (write_file (join (join outDir branch) (attr_get_or h ''name'' [] @ ''.json''))
             (document branch (attr_get_or h ''name'' []) methods)
             (makedirs (join outDir branch) fs),
           (l, Inr ())))"
  using assms by (simp add: convertSubsystem_def Let_def)

lemma convertSubsystem_unnamed:
  assumes "\<not> truthy (attr_get h ''name'')"
  shows "convertSubsystem h branch outDir fs = (fs, ([HandlerNoName], Inr ()))"
  using assms by (simp add: convertSubsystem_def Let_def print_def)

text \<open>
  C10. For a handler with a non-empty name, \<^verbatim>\<open>convertSubsystem\<close> leaves the branch
  directory \<^verbatim>\<open>join(outDir, branch)\<close> among the directories, whatever happens afterwards;
  when the conversion aborts on a missing \<^verbatim>\<open>auth_type\<close> (or raises), creating the
  directory is its only effect on the file system and no file is written. Creating a
  directory that exists changes nothing. For a handler whose name is missing or empty
  the file system is left exactly as it was.
\<close>

theorem C10_branch_directory:
  "(truthy (attr_get h ''name'') \<longrightarrow>
      dirs (fst (convertSubsystem h branch outDir fs)) = insert (join outDir branch) (dirs fs)
    \<and> (snd (snd (convertSubsystem h branch outDir fs)) = Inr ()
        \<and> snd (methodsLoop (attr_get_or h ''name'' []) (getchildren h) []) = Inr None
       \<longrightarrow> fst (convertSubsystem h branch outDir fs) = makedirs (join outDir branch) fs
          \<and> files (fst (convertSubsystem h branch outDir fs)) = files fs))
   \<and> (join outDir branch \<in> dirs fs \<longrightarrow> makedirs (join outDir branch) fs = fs)
   \<and> makedirs p (makedirs p fs) = makedirs p fs
   \<and> (\<not> truthy (attr_get h ''name'') \<longrightarrow> fst (convertSubsystem h branch outDir fs) = fs)"
proof (intro conjI impI)
  assume n: "truthy (attr_get h ''name'')"
  show "dirs (fst (convertSubsystem h branch outDir fs)) = insert (join outDir branch) (dirs fs)"
    by (simp add: convertSubsystem_named [OF n] makedirs_def write_file_def
        split: prod.splits sum.splits option.splits)
  assume "snd (snd (convertSubsystem h branch outDir fs)) = Inr ()
        \<and> snd (methodsLoop (attr_get_or h ''name'' []) (getchildren h) []) = Inr None"
  then have ab: "snd (methodsLoop (attr_get_or h ''name'' []) (getchildren h) []) = Inr None"
    by simp
  then show "fst (convertSubsystem h branch outDir fs) = makedirs (join outDir branch) fs"
    by (cases "methodsLoop (attr_get_or h ''name'' []) (getchildren h) []")
      (simp add: convertSubsystem_named [OF n])
  then show "files (fst (convertSubsystem h branch outDir fs)) = files fs"
    by (simp add: makedirs_def)
next
  assume "join outDir branch \<in> dirs fs"
  then show "makedirs (join outDir branch) fs = fs"
    by (simp add: makedirs_def insert_absorb)
next
  show "makedirs p (makedirs p fs) = makedirs p fs"
    by (simp add: makedirs_def)
next
  assume "\<not> truthy (attr_get h ''name'')"
  then show "fst (convertSubsystem h branch outDir fs) = fs"
    by (simp add: convertSubsystem_unnamed)
qed

theorem C10_branch_directory_witness:
  "dirs (fst (convertSubsystem ex_noauth_handler ''b'' ''out'' empty_fs)) = {''out/b''}
   \<and> fst (convertSubsystem ex_noauth_handler ''b'' ''out'' empty_fs)
       = makedirs ''out/b'' empty_fs
   \<and> files (fst (convertSubsystem ex_noauth_handler ''b'' ''out'' empty_fs)) = files empty_fs
   \<and> makedirs ''out/b'' (makedirs ''out/b'' empty_fs) = makedirs ''out/b'' empty_fs
   \<and> fst (convertSubsystem ex_unnamed_handler ''b'' ''out'' empty_fs) = empty_fs"
proof -
  have 1: "truthy (attr_get ex_noauth_handler ''name'')"
    "\<not> truthy (attr_get ex_unnamed_handler ''name'')"
    "join ''out'' ''b'' = ''out/b''"
    by (simp_all add: ex2_defs attr_get_def truthy_def join_def)
  have 2: "methodsLoop (attr_get_or ex_noauth_handler ''name'' [])
             (getchildren ex_noauth_handler) [] = ([NoAuthType ex_noauth_method], Inr None)"
    by (simp add: ex2_defs ex_defs eval_defs)
  have 3: "snd (snd (convertSubsystem ex_noauth_handler ''b'' ''out'' empty_fs)) = Inr ()"
    by (simp add: convertSubsystem_named [OF 1(1)] 2)
  show ?thesis
    using C10_branch_directory [of ex_noauth_handler "''b''" "''out''" empty_fs "''out/b''"]
      C10_branch_directory [of ex_unnamed_handler "''b''" "''out''" empty_fs "''out/b''"]
      1 2 3
    by (simp add: empty_fs_def makedirs_def)
qed

section \<open>A method without \<^verbatim>\<open>auth_type\<close>\<close>

lemma methodsLoop_no_auth:
  assumes "tag m = ''method''" and "attr_get m ''auth_type'' = None"
  shows "methodsLoop hn (m # post) acc = ([NoAuthType m], Inr None)"
  using assms by (simp add: print_def ret_def)

lemma methodsLoop_contains_no_auth:
  assumes "m \<in> set ms" and "tag m = ''method''" and "attr_get m ''auth_type'' = None"
  shows "snd (methodsLoop hn ms acc) \<noteq> Inr (Some r)"
proof -
  obtain pre post where ms: "ms = pre @ m # post"
    using assms(1) by (auto dest: split_list)
  obtain l x where pre: "methodsLoop hn pre acc = (l, x)"
    by (cases "methodsLoop hn pre acc")
  have "methodsLoop hn (m # post) a = ([NoAuthType m], Inr None)" for a
    by (rule methodsLoop_no_auth [OF assms(2,3)])
  then show ?thesis
    unfolding ms methodsLoop_append pre
    by (cases x) (auto simp: ret_def simp del: methodsLoop.simps split: option.splits)
qed

lemma convertSubsystem_no_auth_files:
  assumes "m \<in> set (getchildren h)" and "tag m = ''method''"
    and "attr_get m ''auth_type'' = None"
  shows "files (fst (convertSubsystem h branch outDir fs)) = files fs"
proof (cases "truthy (attr_get h ''name'')")
  case True
  show ?thesis
    using methodsLoop_contains_no_auth [OF assms, of "attr_get_or h ''name'' []" "[]"]
    by (cases "methodsLoop (attr_get_or h ''name'' []) (getchildren h) []")
      (auto simp: convertSubsystem_named [OF True] makedirs_def split: sum.splits option.splits)
next
  case False
  then show ?thesis by (simp add: convertSubsystem_unnamed)
qed

lemma convertSubsystem_aborts:
  assumes "truthy (attr_get h ''name'')" and "getchildren h = pre @ m # post"
    and "tag m = ''method''" and "attr_get m ''auth_type'' = None"
    and "methodsLoop (attr_get_or h ''name'' []) pre [] = (l, Inr (Some acc))"
  shows "convertSubsystem h branch outDir fs
           = (makedirs (join outDir branch) fs, (l @ [NoAuthType m], Inr ()))"
proof -
  have "methodsLoop (attr_get_or h ''name'' []) (getchildren h) []
          = (l @ [NoAuthType m], Inr None)"
    unfolding assms(2) methodsLoop_append assms(5)
    by (simp add: methodsLoop_no_auth [OF assms(3,4)] del: methodsLoop.simps)
  then show ?thesis
    by (simp add: convertSubsystem_named [OF assms(1)])
qed

text \<open>What a handler writes and whether it raises depend on the files alone, and whether
  it raises does not depend on the file system at all.\<close>

lemma convertSubsystem_snd:
  "snd (convertSubsystem h branch outDir fs) = snd (convertSubsystem h branch outDir fs0)"
  by (simp add: convertSubsystem_def Let_def split: prod.splits sum.splits option.splits)

lemma convertSubsystem_files_cong:
  assumes "files fs = files fs0"
  shows "files (fst (convertSubsystem h branch outDir fs))
           = files (fst (convertSubsystem h branch outDir fs0))"
  using assms
  by (simp add: convertSubsystem_def Let_def makedirs_def write_file_def
      split: prod.splits sum.splits option.splits)

lemma convertLoop_files_cong:
  assumes "files fs = files fs0"
  shows "files (fst (convertLoop hs branch outDir fs))
           = files (fst (convertLoop hs branch outDir fs0))
       \<and> snd (convertLoop hs branch outDir fs) = snd (convertLoop hs branch outDir fs0)"
  using assms
proof (induction hs arbitrary: fs fs0)
  case Nil
  then show ?case by simp
next
  case (Cons h hs)
  show ?case
  proof (cases "tag h = ''handler''")
    case False
    then show ?thesis using Cons.IH [OF Cons.prems] by simp
  next
    case True
    obtain a l r where A: "convertSubsystem h branch outDir fs = (a, (l, r))"
      by (cases "convertSubsystem h branch outDir fs") auto
    obtain a0 l0 r0 where B: "convertSubsystem h branch outDir fs0 = (a0, (l0, r0))"
      by (cases "convertSubsystem h branch outDir fs0") auto
    have s: "l = l0" "r = r0"
      using convertSubsystem_snd [of h branch outDir fs fs0] A B by simp_all
    have f: "files a = files a0"
      using convertSubsystem_files_cong [OF Cons.prems, of h branch outDir] A B by simp
    show ?thesis
      using Cons.IH [OF f] True A B s f
      by (cases r0) (auto split: prod.splits)
  qed
qed

lemma convertLoop_skip_handler:
  assumes "snd (snd (convertSubsystem h branch outDir fs)) = Inr ()"
    and "files (fst (convertSubsystem h branch outDir fs)) = files fs"
  shows "files (fst (convertLoop (h # hs) branch outDir fs))
           = files (fst (convertLoop hs branch outDir fs))
       \<and> snd (snd (convertLoop (h # hs) branch outDir fs))
           = snd (snd (convertLoop hs branch outDir fs))"
proof (cases "tag h = ''handler''")
  case False
  then show ?thesis by simp
next
  case True
  obtain a l where A: "convertSubsystem h branch outDir fs = (a, (l, Inr ()))"
    using assms(1) by (cases "convertSubsystem h branch outDir fs") auto
  have "files a = files fs" using assms(2) A by simp
  note C = convertLoop_files_cong [OF this, of hs branch outDir]
  obtain f2 l2 r2 where B: "convertLoop hs branch outDir a = (f2, (l2, r2))"
    by (cases "convertLoop hs branch outDir a") auto
  obtain f3 l3 r3 where D: "convertLoop hs branch outDir fs = (f3, (l3, r3))"
    by (cases "convertLoop hs branch outDir fs") auto
  show ?thesis using True A B C D by simp
qed

text \<open>
  C3. For a handler \<open>h\<close> with a \<^verbatim>\<open><method>\<close> child \<open>m\<close> that has no
  \<^verbatim>\<open>auth_type\<close> attribute, \<^verbatim>\<open>convertSubsystem\<close> writes no file at all. When the
  methods before \<open>m\<close> were converted, the handler stops at \<open>m\<close> with the diagnostic,
  drops the methods collected so far and returns normally, having only created the
  branch directory. Whenever the handler returns without an exception (the uncaught
  lookup failure of an unknown type tag is the one way it does not), the rest of the
  document is converted as if the handler were not there: the same files with the same
  contents are written and the run ends the same way.
\<close>

theorem C3_missing_auth_type_aborts_handler:
  assumes "m \<in> set (getchildren h)" and "tag m = ''method''"
    and "attr_get m ''auth_type'' = None"
  shows "files (fst (convertSubsystem h branch outDir fs)) = files fs
    \<and> (\<forall>pre post l acc.
          truthy (attr_get h ''name'') \<and> getchildren h = pre @ m # post
          \<and> methodsLoop (attr_get_or h ''name'' []) pre [] = (l, Inr (Some acc))
          \<longrightarrow> convertSubsystem h branch outDir fs
                = (makedirs (join outDir branch) fs, (l @ [NoAuthType m], Inr ())))
    \<and> (\<forall>hpre hpost fs0.
          snd (snd (convertSubsystem h branch outDir fs)) = Inr ()
          \<longrightarrow> files (fst (convertLoop (hpre @ h # hpost) branch outDir fs0))
                = files (fst (convertLoop (hpre @ hpost) branch outDir fs0))
              \<and> snd (snd (convertLoop (hpre @ h # hpost) branch outDir fs0))
                = snd (snd (convertLoop (hpre @ hpost) branch outDir fs0)))"
proof (intro conjI allI impI)
  show "files (fst (convertSubsystem h branch outDir fs)) = files fs"
    by (rule convertSubsystem_no_auth_files [OF assms])
next
  fix pre post l acc
  assume "truthy (attr_get h ''name'') \<and> getchildren h = pre @ m # post
          \<and> methodsLoop (attr_get_or h ''name'' []) pre [] = (l, Inr (Some acc))"
  then show "convertSubsystem h branch outDir fs
                = (makedirs (join outDir branch) fs, (l @ [NoAuthType m], Inr ()))"
    using convertSubsystem_aborts [of h pre m post l acc branch outDir fs] assms(2,3) by simp
next
  fix hpre hpost fs0
  assume ok: "snd (snd (convertSubsystem h branch outDir fs)) = Inr ()"
  obtain f1 l1 r1 where P: "convertLoop hpre branch outDir fs0 = (f1, (l1, r1))"
    by (cases "convertLoop hpre branch outDir fs0") auto
  have ok1: "snd (snd (convertSubsystem h branch outDir f1)) = Inr ()"
    using ok convertSubsystem_snd [of h branch outDir f1 fs] by simp
  have nf: "files (fst (convertSubsystem h branch outDir f1)) = files f1"
    by (rule convertSubsystem_no_auth_files [OF assms])
  note S = convertLoop_skip_handler [OF ok1 nf, of hpost]
  show "files (fst (convertLoop (hpre @ h # hpost) branch outDir fs0))
          = files (fst (convertLoop (hpre @ hpost) branch outDir fs0))"
    using S by (cases r1) (auto simp: convertLoop_append P split: prod.splits)
  show "snd (snd (convertLoop (hpre @ h # hpost) branch outDir fs0))
          = snd (snd (convertLoop (hpre @ hpost) branch outDir fs0))"
    using S by (cases r1) (auto simp: convertLoop_append P split: prod.splits)
qed

theorem C3_missing_auth_type_aborts_handler_witness:
  "files (fst (convertSubsystem ex_noauth_handler ''b'' ''out'' empty_fs)) = files empty_fs
   \<and> convertSubsystem ex_noauth_handler ''b'' ''out'' empty_fs
       = (makedirs ''out/b'' empty_fs, ([NoAuthType ex_noauth_method], Inr ()))
   \<and> files (fst (convertLoop ([] @ ex_noauth_handler # [ex_good_handler]) ''b'' ''out'' empty_fs))
       = files (fst (convertLoop ([] @ [ex_good_handler]) ''b'' ''out'' empty_fs))
   \<and> snd (snd (convertLoop ([] @ ex_noauth_handler # [ex_good_handler]) ''b'' ''out'' empty_fs))
       = snd (snd (convertLoop ([] @ [ex_good_handler]) ''b'' ''out'' empty_fs))"
proof -
  have hyp: "ex_noauth_method \<in> set (getchildren ex_noauth_handler)"
    "tag ex_noauth_method = ''method''" "attr_get ex_noauth_method ''auth_type'' = None"
    by (simp_all add: ex2_defs attr_get_def)
  note T = C3_missing_auth_type_aborts_handler [OF hyp, of "''b''" "''out''" empty_fs]
  have pre: "truthy (attr_get ex_noauth_handler ''name'')"
    "getchildren ex_noauth_handler = [ex_good_method] @ ex_noauth_method # []"
    "join ''out'' ''b'' = ''out/b''"
    by (simp_all add: ex2_defs attr_get_def truthy_def join_def)
  have good: "\<exists>j. methodsLoop (attr_get_or ex_noauth_handler ''name'' []) [ex_good_method] []
           = ([], Inr (Some [j]))"
    by (simp add: ex2_defs ex_defs eval_defs)
  then obtain j where j: "methodsLoop (attr_get_or ex_noauth_handler ''name'' [])
      [ex_good_method] [] = ([], Inr (Some [j]))" ..
  have 2: "convertSubsystem ex_noauth_handler ''b'' ''out'' empty_fs
       = (makedirs ''out/b'' empty_fs, ([NoAuthType ex_noauth_method], Inr ()))"
    using T [THEN conjunct2, THEN conjunct1, rule_format,
        of "[ex_good_method]" "[]" "[]" "[j]"] pre j
    by simp
  then have ok: "snd (snd (convertSubsystem ex_noauth_handler ''b'' ''out'' empty_fs)) = Inr ()"
    by simp
  note 3 = T [THEN conjunct2, THEN conjunct2, rule_format, OF ok,
      of "[]" "[ex_good_handler]" empty_fs]
  show ?thesis
    using T [THEN conjunct1] 2 3 by blast
qed

section \<open>An output with neither \<^verbatim>\<open>type\<close> nor \<^verbatim>\<open>value\<close>\<close>

lemma getJsonMethod_no_output_type:
  assumes "tag m = ''method''" and "truthy (attr_get m ''name'')"
    and "find_child ''input'' m = Some i" and "find_child ''output'' m = Some out"
    and "\<not> truthy (attr_get out ''type'')" and "\<not> truthy (attr_get out ''value'')"
    and "getParams i = (l, Inr ps)"
  shows "getJsonMethod hn m ats = (l @ [NoOutputTypeNorValue m], Inr None)"
  using assms by (simp add: getJsonMethod_def resolveOutput_def buildResult_def Let_def print_def ret_def)

lemma getJsonMethod_no_output_type_no_descriptor:
  assumes "find_child ''output'' m = Some out"
    and "\<not> truthy (attr_get out ''type'')" and "\<not> truthy (attr_get out ''value'')"
  shows "snd (getJsonMethod hn m ats) \<noteq> Inr (Some d)"
proof (cases "getParams (the (find_child ''input'' m))")
  case (Pair l r)
  then show ?thesis
    using assms
    by (cases r)
      (auto simp: getJsonMethod_def resolveOutput_def buildResult_def Let_def print_def ret_def split: option.splits)
qed

lemma methodsLoop_skip:
  assumes "tag m = ''method'' \<longrightarrow> attr_get m ''auth_type'' \<noteq> None"
    and "\<And>ats e. snd (getJsonMethod hn m ats) \<noteq> Inl e"
    and "\<And>ats d. snd (getJsonMethod hn m ats) \<noteq> Inr (Some d)"
  shows "snd (methodsLoop hn (m # rest) acc) = snd (methodsLoop hn rest acc)"
proof (cases "tag m = ''method''")
  case False
  then show ?thesis by simp
next
  case True
  then obtain a where a: "attr_get m ''auth_type'' = Some a"
    using assms(1) by auto
  obtain la ats where ats: "authTypesOf a = (la, Inr ats)"
    using authTypesOf_returns by blast
  obtain l r where g: "getJsonMethod hn m ats = (l, r)"
    by (cases "getJsonMethod hn m ats")
  have "snd (getJsonMethod hn m ats) = Inr None"
  proof (cases "snd (getJsonMethod hn m ats)")
    case (Inl e)
    then show ?thesis using assms(2) [of ats e] by simp
  next
    case (Inr b)
    then show ?thesis using assms(3) [of ats] by (cases b) simp_all
  qed
  then have "r = Inr None"
    using g by simp
  then show ?thesis
    using True a ats g by simp
qed

lemma methodsLoop_skip_append:
  assumes "tag m = ''method'' \<longrightarrow> attr_get m ''auth_type'' \<noteq> None"
    and "\<And>ats e. snd (getJsonMethod hn m ats) \<noteq> Inl e"
    and "\<And>ats d. snd (getJsonMethod hn m ats) \<noteq> Inr (Some d)"
  shows "snd (methodsLoop hn (pre @ m # rest) acc) = snd (methodsLoop hn (pre @ rest) acc)"
proof -
  obtain l x where pre: "methodsLoop hn pre acc = (l, x)"
    by (cases "methodsLoop hn pre acc")
  have s: "snd (methodsLoop hn (m # rest) a) = snd (methodsLoop hn rest a)" for a
    by (rule methodsLoop_skip [OF assms])
  show ?thesis
    unfolding methodsLoop_append [of hn pre] pre
    using s
    by (cases x) (auto simp: ret_def simp del: methodsLoop.simps split: option.splits)
qed

lemma fst_convertSubsystem_cong:
  assumes "attr_get h ''name'' = attr_get h' ''name''"
    and "snd (methodsLoop (attr_get_or h ''name'' []) (getchildren h) [])
          = snd (methodsLoop (attr_get_or h ''name'' []) (getchildren h') [])"
  shows "fst (convertSubsystem h branch outDir fs) = fst (convertSubsystem h' branch outDir fs)"
proof -
  have n: "attr_get_or h' ''name'' [] = attr_get_or h ''name'' []"
    using assms(1) by (simp add: attr_get_or_def)
  obtain l r where A: "methodsLoop (attr_get_or h ''name'' []) (getchildren h) [] = (l, r)"
    by (cases "methodsLoop (attr_get_or h ''name'' []) (getchildren h) []")
  obtain l' where B: "methodsLoop (attr_get_or h ''name'' []) (getchildren h') [] = (l', r)"
    using assms(2) A by (cases "methodsLoop (attr_get_or h ''name'' []) (getchildren h') []") simp
  show ?thesis
    using assms(1)
    by (simp add: convertSubsystem_def Let_def n A B split: sum.splits option.splits)
qed

text \<open>
  C4, as the code has it. A \<^verbatim>\<open><method>\<close> \<open>m\<close> whose \<^verbatim>\<open><output>\<close> has neither
  \<^verbatim>\<open>type\<close> nor \<^verbatim>\<open>value\<close> contributes no descriptor; when it is a named method with an
  input whose parameters were converted, \<^verbatim>\<open>getJsonMethod\<close> prints the diagnostic and
  returns \<^verbatim>\<open>None\<close>. The handler is not aborted: when \<open>m\<close> has an \<^verbatim>\<open>auth_type\<close>
  attribute (without one the handler stops at \<open>m\<close> before \<^verbatim>\<open>getJsonMethod\<close> is
  called) and does not raise, the loop over the methods goes on, and the handler leaves
  the file system as the same handler without \<open>m\<close> would, so the methods after \<open>m\<close>
  contribute their descriptors as usual.
\<close>

theorem C4_output_without_type_skips_method:
  assumes "find_child ''output'' m = Some out"
    and "attr_get out ''type'' = None" and "attr_get out ''value'' = None"
  shows "(\<forall>hn ats d. snd (getJsonMethod hn m ats) \<noteq> Inr (Some d))
    \<and> (\<forall>hn ats i l ps.
          tag m = ''method'' \<and> truthy (attr_get m ''name'')
          \<and> find_child ''input'' m = Some i \<and> getParams i = (l, Inr ps)
          \<longrightarrow> getJsonMethod hn m ats = (l @ [NoOutputTypeNorValue m], Inr None))
    \<and> (\<forall>hn pre rest acc.
          attr_get m ''auth_type'' \<noteq> None \<and> (\<forall>ats e. snd (getJsonMethod hn m ats) \<noteq> Inl e)
          \<longrightarrow> snd (methodsLoop hn (pre @ m # rest) acc) = snd (methodsLoop hn (pre @ rest) acc))
    \<and> (\<forall>t a pre rest branch outDir fs.
          attr_get m ''auth_type'' \<noteq> None
          \<and> (\<forall>ats e. snd (getJsonMethod (attr_get_or (Element t a []) ''name'' []) m ats) \<noteq> Inl e)
          \<longrightarrow> fst (convertSubsystem (Element t a (pre @ m # rest)) branch outDir fs)
              = fst (convertSubsystem (Element t a (pre @ rest)) branch outDir fs))"
proof -
  have f: "\<not> truthy (attr_get out ''type'')" "\<not> truthy (attr_get out ''value'')"
    using assms(2,3) by (simp_all add: truthy_def)
  note nd = getJsonMethod_no_output_type_no_descriptor [OF assms(1) f]
  have loop: "snd (methodsLoop hn (pre @ m # rest) acc) = snd (methodsLoop hn (pre @ rest) acc)"
    if "attr_get m ''auth_type'' \<noteq> None" "\<forall>ats e. snd (getJsonMethod hn m ats) \<noteq> Inl e"
    for hn pre rest acc
    using that by (intro methodsLoop_skip_append nd) auto
  have handler: "fst (convertSubsystem (Element t a (pre @ m # rest)) branch outDir fs)
              = fst (convertSubsystem (Element t a (pre @ rest)) branch outDir fs)"
    if "attr_get m ''auth_type'' \<noteq> None"
      "\<forall>ats e. snd (getJsonMethod (attr_get_or (Element t a []) ''name'' []) m ats) \<noteq> Inl e"
    for t a pre rest branch outDir fs
  proof (rule fst_convertSubsystem_cong)
    show "attr_get (Element t a (pre @ m # rest)) ''name''
            = attr_get (Element t a (pre @ rest)) ''name''"
      by (simp add: attr_get_def)
    have n: "attr_get_or (Element t a (pre @ m # rest)) ''name'' []
               = attr_get_or (Element t a []) ''name'' []"
      by (simp add: attr_get_or_def attr_get_def)
    show "snd (methodsLoop (attr_get_or (Element t a (pre @ m # rest)) ''name'' [])
                 (getchildren (Element t a (pre @ m # rest))) [])
        = snd (methodsLoop (attr_get_or (Element t a (pre @ m # rest)) ''name'' [])
                 (getchildren (Element t a (pre @ rest))) [])"
      unfolding n using loop [OF that] by simp
  qed
  show ?thesis
    apply (intro conjI allI impI)
       apply (rule nd)
      apply (elim conjE)
      apply (rule getJsonMethod_no_output_type [OF _ _ _ assms(1) f]; assumption)
     apply (elim conjE)
     apply (rule loop; assumption)
    apply (elim conjE)
    apply (rule handler; assumption)
    done
qed

theorem C4_output_without_type_skips_method_witness:
  "snd (getJsonMethod ''h4'' ex_notype_method [''ADMIN'']) \<noteq> Inr (Some [])
   \<and> getJsonMethod ''h4'' ex_notype_method [''ADMIN'']
       = ([] @ [NoOutputTypeNorValue ex_notype_method], Inr None)
   \<and> snd (methodsLoop ''h4'' ([] @ ex_notype_method # [ex_good_method]) [])
       = snd (methodsLoop ''h4'' ([] @ [ex_good_method]) [])
   \<and> fst (convertSubsystem
            (Element ''handler'' [(''name'', ''h4'')] ([] @ ex_notype_method # [ex_good_method]))
            ''b'' ''out'' empty_fs)
       = fst (convertSubsystem
            (Element ''handler'' [(''name'', ''h4'')] ([] @ [ex_good_method]))
            ''b'' ''out'' empty_fs)"
proof -
  have hyp: "find_child ''output'' ex_notype_method = Some (Element ''output'' [] [])"
    "attr_get (Element ''output'' [] []) ''type'' = None"
    "attr_get (Element ''output'' [] []) ''value'' = None"
    by (simp_all add: ex4_defs find_child_def findall_def attr_get_def)
  note T = C4_output_without_type_skips_method [OF hyp]
  have m: "tag ex_notype_method = ''method''" "truthy (attr_get ex_notype_method ''name'')"
    "find_child ''input'' ex_notype_method = Some (Element ''input'' [] [])"
    "getParams (Element ''input'' [] []) = ([], Inr [])"
    "attr_get ex_notype_method ''auth_type'' \<noteq> None"
    by (simp_all add: ex4_defs find_child_def findall_def attr_get_def truthy_def
        getParams.simps ret_def)
  have 2: "getJsonMethod hn ex_notype_method ats
       = ([] @ [NoOutputTypeNorValue ex_notype_method], Inr None)" for hn ats
    using T [THEN conjunct2, THEN conjunct1, rule_format,
        of "Element ''input'' [] []" "[]" "[]" hn ats] m
    by simp
  then have nr: "\<forall>ats e. snd (getJsonMethod hn ex_notype_method ats) \<noteq> Inl e" for hn
    by simp
  note 3 = T [THEN conjunct2, THEN conjunct2, THEN conjunct1, rule_format,
      of "''h4''" "[]" "[ex_good_method]" "[]"]
  note 4 = T [THEN conjunct2, THEN conjunct2, THEN conjunct2, rule_format,
      of "''handler''" "[(''name'', ''h4'')]" "[]" "[ex_good_method]" "''b''" "''out''" empty_fs]
  show ?thesis
    using T [THEN conjunct1, rule_format, of "''h4''" "[''ADMIN'']" "[]"] 2 3 4 m(5) nr
    by blast
qed

text \<open>
  The claim as it was stated fails: in the handler \<^verbatim>\<open>h4\<close> the first method has an
  output with neither \<^verbatim>\<open>type\<close> nor \<^verbatim>\<open>value\<close>, and the method \<^verbatim>\<open>ok\<close> that follows
  it is the one descriptor of the file that is written.
\<close>

theorem C4_counterexample:
  "getchildren ex_notype_handler = [ex_notype_method, ex_good_method]
   \<and> find_child ''output'' ex_notype_method = Some (Element ''output'' [] [])
   \<and> (\<exists>d. files (fst (convertSubsystem ex_notype_handler ''b'' ''out'' empty_fs))
             ''out/b/h4.json'' = Some (document ''b'' ''h4'' [d])
          \<and> dict_get d (PStr ''name'') = Some (PStr ''h4.ok''))"
  by (simp add: ex4_defs ex_defs eval_defs)

section \<open>The result of a method\<close>

lemma bind_res_InrD:
  assumes "bind_res m f = (l, Inr y)"
  shows "\<exists>l1 x l2. m = (l1, Inr x) \<and> f x = (l2, Inr y) \<and> l = l1 @ l2"
  using assms
  by (cases m) (auto simp: bind_res_def split: sum.splits prod.splits)

lemma ret_eq: "ret x = (l, Inr y) \<longleftrightarrow> l = [] \<and> x = y"
  by (auto simp: ret_def)

lemma print_ret_eq: "bind_res (print d) (\<lambda>_. ret x) = (l, Inr y) \<longleftrightarrow> l = [d] \<and> x = y"
  by (auto simp: print_def ret_def)

lemma paramTypeMapping_empty: "paramTypeMapping [] = None"
  by (simp add: paramTypeMapping_def paramTypeMapping_items_def)

lemma lookupType_eq:
  "lookupType t = (l, Inr nt) \<longleftrightarrow> l = [] \<and> paramTypeMapping t = Some nt"
  by (auto simp: lookupType_def ret_def raise_def split: option.splits)

text \<open>The values an output of type \<^verbatim>\<open>choice\<close> lists: the non-empty \<^verbatim>\<open>value\<close>s of its
  \<^verbatim>\<open><choice>\<close> children, in document order.\<close>

definition outputEnum :: "xml \<Rightarrow> pyval list" where
  "outputEnum out =
     map (\<lambda>c. opt_str (attr_get c ''value''))
       (filter (\<lambda>c. tag c = ''choice'' \<and> truthy (attr_get c ''value'')) (getchildren out))"

lemma snd_outputChoices:
  "snd (outputChoices cs) =
     Inr (map (\<lambda>c. opt_str (attr_get c ''value''))
            (filter (\<lambda>c. tag c = ''choice'' \<and> truthy (attr_get c ''value'')) cs))"
  by (induction cs)
    (auto simp: ret_def print_def Let_def bind_res_def split: prod.splits sum.splits)

lemma resolveOutput_SomeD:
  assumes "resolveOutput m out = (l, Inr (Some (rt, rv)))"
  shows "(if attr_get out ''type'' = Some ''choice''
          then rt = ParamType (Single []) [] [] \<and> rv = Some (outputEnum out)
          else (if truthy (attr_get out ''type'')
                then paramTypeMapping (attr_get_or out ''type'' []) = Some rt
                else rt = ParamType (Single []) [] [])
             \<and> rv = (if truthy (attr_get out ''value'')
                      then Some [opt_str (attr_get out ''value'')] else None))"
proof (cases "attr_get out ''type'' = Some ''choice''")
  case True
  then have "bind_res (outputChoices (getchildren out))
               (\<lambda>vals. ret (Some (ParamType (Single []) [] [], Some vals)))
             = (l, Inr (Some (rt, rv)))"
    using assms by (simp add: resolveOutput_def Let_def truthy_def)
  from bind_res_InrD [OF this] snd_outputChoices [of "getchildren out"]
  show ?thesis
    using True by (auto simp: ret_eq outputEnum_def)
next
  case False
  show ?thesis
  proof (cases "truthy (attr_get out ''type'')")
    case True
    then have "bind_res (lookupType (attr_get_or out ''type'' []))
                 (\<lambda>resultType. ret (Some (resultType,
                    if truthy (attr_get out ''value'')
                    then Some [opt_str (attr_get out ''value'')] else None)))
               = (l, Inr (Some (rt, rv)))"
      using assms False by (simp add: resolveOutput_def Let_def)
    from bind_res_InrD [OF this]
    show ?thesis
      using True False by (auto simp: ret_eq lookupType_eq)
  next
    case nt: False
    then show ?thesis
      using assms False
      by (auto simp: resolveOutput_def Let_def ret_eq print_ret_eq split: if_splits)
  qed
qed

lemma getJsonMethod_SomeD:
  assumes "getJsonMethod hn m ats = (l, Inr (Some jm))"
  shows "\<exists>out l' rt rv rp.
      find_child ''output'' m = Some out
    \<and> resolveOutput m out = (l', Inr (Some (rt, rv)))
    \<and> dict_get jm (PStr ''result'')
        = Some (PDict (buildResult (attr_get_or out ''comment'' []) rt rv rp))"
proof -
  have t: "tag m = ''method''"
    by (rule ccontr) (use assms in \<open>simp add: getJsonMethod_def ret_eq\<close>)
  have n: "truthy (attr_get m ''name'')"
    by (rule ccontr) (use assms t in \<open>simp add: getJsonMethod_def Let_def print_ret_eq\<close>)
  obtain i where i: "find_child ''input'' m = Some i"
    using assms t n
    by (cases "find_child ''input'' m") (auto simp: getJsonMethod_def Let_def print_ret_eq)
  obtain out where out: "find_child ''output'' m = Some out"
    using assms t n i
    by (cases "find_child ''output'' m") (auto simp: getJsonMethod_def Let_def print_ret_eq)
  define K where "K = (\<lambda>jsonMethod resolved.
      case resolved of
        None \<Rightarrow> ret None
      | Some (resultType, resultValues) \<Rightarrow>
          bind_res (resultParamsLoop (getchildren out) [])
            (\<lambda>resultParams.
               ret (Some (dict_set (PStr ''result'')
                 (PDict (buildResult (attr_get_or out ''comment'' []) resultType resultValues
                           resultParams))
                 jsonMethod))))"
  have "\<exists>J. getJsonMethod hn m ats
          = bind_res (getParams i) (\<lambda>ps. bind_res (resolveOutput m out) (K (J ps)))"
    by (rule exI [of _ "\<lambda>ps. dict_set (PStr ''params'') (PList (map PDict ps))
          (if truthy (attr_get m ''requires_perm'')
           then dict_set (PStr ''requires_perm'') (opt_str (attr_get m ''requires_perm''))
                  [(PStr ''name'', PStr (hn @ ''.'' @ attr_get_or m ''name'' [])),
                   (PStr ''description'', PStr (attr_get_or m ''comment'' [])),
                   (PStr ''auth_type'', PList (map PStr ats))]
           else [(PStr ''name'', PStr (hn @ ''.'' @ attr_get_or m ''name'' [])),
                 (PStr ''description'', PStr (attr_get_or m ''comment'' [])),
                 (PStr ''auth_type'', PList (map PStr ats))])"])
      (simp add: getJsonMethod_def t n i out Let_def K_def)
  then obtain J where
    E: "getJsonMethod hn m ats
          = bind_res (getParams i) (\<lambda>ps. bind_res (resolveOutput m out) (K (J ps)))" ..
  from bind_res_InrD [OF assms [unfolded E]] obtain ps l2 where
    B: "bind_res (resolveOutput m out) (K (J ps)) = (l2, Inr (Some jm))"
    by auto
  from bind_res_InrD [OF B] obtain l3 resolved l4 where
    R: "resolveOutput m out = (l3, Inr resolved)" and
    C: "K (J ps) resolved = (l4, Inr (Some jm))"
    by auto
  obtain rt rv where res: "resolved = Some (rt, rv)"
    using C by (cases resolved) (auto simp: K_def ret_eq)
  have "bind_res (resultParamsLoop (getchildren out) [])
            (\<lambda>resultParams.
               ret (Some (dict_set (PStr ''result'')
                 (PDict (buildResult (attr_get_or out ''comment'' []) rt rv resultParams))
                 (J ps))))
        = (l4, Inr (Some jm))"
    using C by (simp add: res K_def)
  from bind_res_InrD [OF this]
  obtain rp where "jm = dict_set (PStr ''result'')
      (PDict (buildResult (attr_get_or out ''comment'' []) rt rv rp)) (J ps)"
    by (auto simp: ret_eq)
  then have "dict_get jm (PStr ''result'')
        = Some (PDict (buildResult (attr_get_or out ''comment'' []) rt rv rp))"
    by (simp add: dict_get_set)
  then show ?thesis
    using out R res by blast
qed

lemma buildResult_enum:
  "dict_get (buildResult c rt rv rp) (PStr ''enum'') = map_option PList rv"
  by (cases rv) (simp_all add: buildResult_def Let_def dict_simps)

lemma buildResult_schema:
  "dict_get (buildResult c rt rv rp) (PStr ''schema'') =
     (if jtype_truthy (pt_type rt)
      then Some (PDict (if rp \<noteq> []
                        then [(PStr ''title'', PStr []), (PStr ''type'', jtype_val (pt_type rt)),
                              (PStr ''properties'', PDict rp)]
                        else [(PStr ''title'', PStr []), (PStr ''type'', jtype_val (pt_type rt))]))
      else None)"
  by (cases rv) (simp_all add: buildResult_def Let_def dict_simps)

text \<open>
  C5, as the code has it. In the result of every converted method, the \<^verbatim>\<open>enum\<close> is the
  list collected from the \<^verbatim>\<open><choice>\<close> children when the output has
  \<^verbatim>\<open>type="choice"\<close> (whether or not it has a \<^verbatim>\<open>value\<close>), otherwise the one-element
  list of a non-empty \<^verbatim>\<open>value\<close>, otherwise absent. The \<^verbatim>\<open>schema\<close> is present exactly
  when the type is not \<^verbatim>\<open>choice\<close> and is a key of the table mapped to a non-empty JSON
  type, and then carries that type; whether there is a \<^verbatim>\<open>value\<close> plays no part in it.
\<close>

theorem C5_output_resolution:
  assumes "getJsonMethod hn m ats = (l, Inr (Some jm))"
  shows "\<exists>out result.
      find_child ''output'' m = Some out
    \<and> dict_get jm (PStr ''result'') = Some (PDict result)
    \<and> dict_get result (PStr ''enum'') =
        (if attr_get out ''type'' = Some ''choice'' then Some (PList (outputEnum out))
         else if truthy (attr_get out ''value'')
         then Some (PList [opt_str (attr_get out ''value'')])
         else None)
    \<and> (dict_has result (PStr ''schema'') \<longleftrightarrow>
          attr_get out ''type'' \<noteq> Some ''choice''
          \<and> (\<exists>nt. paramTypeMapping (attr_get_or out ''type'' []) = Some nt
                \<and> jtype_truthy (pt_type nt)))
    \<and> (\<forall>nt. attr_get out ''type'' \<noteq> Some ''choice''
            \<and> paramTypeMapping (attr_get_or out ''type'' []) = Some nt
            \<and> jtype_truthy (pt_type nt)
          \<longrightarrow> (\<exists>sch. dict_get result (PStr ''schema'') = Some (PDict sch)
                \<and> dict_get sch (PStr ''type'') = Some (jtype_val (pt_type nt))))"
proof -
  from getJsonMethod_SomeD [OF assms] obtain out l' rt rv rp where
    out: "find_child ''output'' m = Some out" and
    R: "resolveOutput m out = (l', Inr (Some (rt, rv)))" and
    res: "dict_get jm (PStr ''result'')
        = Some (PDict (buildResult (attr_get_or out ''comment'' []) rt rv rp))"
    by blast
  note D = resolveOutput_SomeD [OF R]
  have untyped: "paramTypeMapping (attr_get_or out ''type'' []) = None"
    if "\<not> truthy (attr_get out ''type'')"
    using that paramTypeMapping_empty
    by (cases "attr_get out ''type''") (simp_all add: attr_get_or_def truthy_def)
  have dflt: "\<not> jtype_truthy (pt_type (ParamType (Single []) [] []))"
    by (simp add: ParamType_def)
  let ?result = "buildResult (attr_get_or out ''comment'' []) rt rv rp"
  have enum: "dict_get ?result (PStr ''enum'') =
        (if attr_get out ''type'' = Some ''choice'' then Some (PList (outputEnum out))
         else if truthy (attr_get out ''value'')
         then Some (PList [opt_str (attr_get out ''value'')])
         else None)"
    using D by (simp add: buildResult_enum split: if_splits)
  have rt: "jtype_truthy (pt_type rt) \<longleftrightarrow>
          attr_get out ''type'' \<noteq> Some ''choice''
          \<and> (\<exists>nt. paramTypeMapping (attr_get_or out ''type'' []) = Some nt
                \<and> jtype_truthy (pt_type nt))"
    using D dflt untyped by (auto split: if_splits)
  have schema: "dict_has ?result (PStr ''schema'') \<longleftrightarrow>
          attr_get out ''type'' \<noteq> Some ''choice''
          \<and> (\<exists>nt. paramTypeMapping (attr_get_or out ''type'' []) = Some nt
                \<and> jtype_truthy (pt_type nt))"
    unfolding rt [symmetric] by (simp add: dict_has_def buildResult_schema)
  have ty: "\<exists>sch. dict_get ?result (PStr ''schema'') = Some (PDict sch)
                \<and> dict_get sch (PStr ''type'') = Some (jtype_val (pt_type nt))"
    if "attr_get out ''type'' \<noteq> Some ''choice''
        \<and> paramTypeMapping (attr_get_or out ''type'' []) = Some nt
        \<and> jtype_truthy (pt_type nt)" for nt
  proof -
    have "rt = nt"
      using that D untyped by (auto split: if_splits)
    then show ?thesis
      using that by (simp add: buildResult_schema dict_simps)
  qed
  show ?thesis
    using out res enum schema ty by blast
qed

theorem C5_output_resolution_witness:
  "\<exists>jm result.
      snd (getJsonMethod ''h2'' ex_good_method [''ADMIN'']) = Inr (Some jm)
    \<and> find_child ''output'' ex_good_method = Some ex_int_output
    \<and> dict_get jm (PStr ''result'') = Some (PDict result)
    \<and> dict_get result (PStr ''enum'') = None
    \<and> dict_has result (PStr ''schema'')
    \<and> (\<exists>sch. dict_get result (PStr ''schema'') = Some (PDict sch)
          \<and> dict_get sch (PStr ''type'') = Some (PStr ''number''))"
proof -
  have "\<exists>jm. getJsonMethod ''h2'' ex_good_method [''ADMIN''] = ([], Inr (Some jm))"
    by (simp add: ex_defs eval_defs)
  then obtain jm where jm: "getJsonMethod ''h2'' ex_good_method [''ADMIN''] = ([], Inr (Some jm))" ..
  have out: "find_child ''output'' ex_good_method = Some ex_int_output"
    by (simp add: ex_defs find_child_def findall_def)
  have a: "attr_get ex_int_output ''type'' = Some ''int''"
    "attr_get ex_int_output ''value'' = None" "attr_get_or ex_int_output ''type'' [] = ''int''"
    "paramTypeMapping ''int'' = Some (ParamType (Single ''number'') [] [])"
    by (simp_all add: ex_defs attr_get_def attr_get_or_def paramTypeMapping_def
        paramTypeMapping_items_def)
  from C5_output_resolution [OF jm] obtain out' result where
    r: "find_child ''output'' ex_good_method = Some out'"
      "dict_get jm (PStr ''result'') = Some (PDict result)"
      "dict_get result (PStr ''enum'') =
        (if attr_get out' ''type'' = Some ''choice'' then Some (PList (outputEnum out'))
         else if truthy (attr_get out' ''value'')
         then Some (PList [opt_str (attr_get out' ''value'')])
         else None)"
      "dict_has result (PStr ''schema'') \<longleftrightarrow>
          attr_get out' ''type'' \<noteq> Some ''choice''
          \<and> (\<exists>nt. paramTypeMapping (attr_get_or out' ''type'' []) = Some nt
                \<and> jtype_truthy (pt_type nt))"
      "\<forall>nt. attr_get out' ''type'' \<noteq> Some ''choice''
            \<and> paramTypeMapping (attr_get_or out' ''type'' []) = Some nt
            \<and> jtype_truthy (pt_type nt)
          \<longrightarrow> (\<exists>sch. dict_get result (PStr ''schema'') = Some (PDict sch)
                \<and> dict_get sch (PStr ''type'') = Some (jtype_val (pt_type nt)))"
    by blast
  have o: "out' = ex_int_output"
    using r(1) out by simp
  have 3: "dict_get result (PStr ''enum'') = None"
    using r(3) a by (simp add: o truthy_def)
  have 4: "dict_has result (PStr ''schema'')"
    using r(4) a by (simp add: o ParamType_def)
  have 5: "\<exists>sch. dict_get result (PStr ''schema'') = Some (PDict sch)
          \<and> dict_get sch (PStr ''type'') = Some (PStr ''number'')"
    using r(5) [rule_format, of "ParamType (Single ''number'') [] []"] a
    by (simp add: o ParamType_def)
  show ?thesis
    using jm out r(2) 3 4 5 by auto
qed

text \<open>
  The claim as it was stated fails. An output with \<^verbatim>\<open>value="ok"\<close> and
  \<^verbatim>\<open>type="int"\<close> gives a result with both an \<^verbatim>\<open>enum\<close> and a \<^verbatim>\<open>schema\<close>; and an
  output with \<^verbatim>\<open>value="ok"\<close> and \<^verbatim>\<open>type="choice"\<close> gives the collected choices, not
  the value.
\<close>

theorem C5_counterexample:
  "(\<exists>jm result.
       getJsonMethod ''h'' ex_both_method [''ADMIN''] = ([], Inr (Some jm))
     \<and> dict_get jm (PStr ''result'') = Some (PDict result)
     \<and> dict_get result (PStr ''enum'') = Some (PList [PStr ''ok''])
     \<and> dict_get result (PStr ''schema'')
         = Some (PDict [(PStr ''title'', PStr []), (PStr ''type'', PStr ''number'')]))
   \<and> (\<exists>jm result.
       getJsonMethod ''h'' ex_value_choice_method [''ADMIN''] = ([], Inr (Some jm))
     \<and> dict_get jm (PStr ''result'') = Some (PDict result)
     \<and> dict_get result (PStr ''enum'') = Some (PList [PStr ''a'']))"
  by (simp add: ex5_defs eval_defs)

section \<open>Choice parameters\<close>

text \<open>
  What the claim names: a child is a well-formed choice when it is a \<^verbatim>\<open><choice>\<close> with
  a \<^verbatim>\<open>value\<close> whose text, if the child has \<^verbatim>\<open>type="int"\<close>, is an integer literal;
  \<open>choiceEnumValue\<close> is its entry in the \<^verbatim>\<open>enum\<close>, and \<open>emittedDefault\<close> is the
  default emitted for a marked entry.
\<close>

definition choice_ok :: "xml \<Rightarrow> bool" where
  "choice_ok c \<longleftrightarrow>
     tag c = ''choice'' \<and> attr_get c ''value'' \<noteq> None
     \<and> (attr_get c ''type'' = Some ''int'' \<longrightarrow> py_int (attr_get_or c ''value'' []) \<noteq> None)"

definition choiceEnumValue :: "xml \<Rightarrow> pyval" where
  "choiceEnumValue c =
     (let v = attr_get_or c ''value'' [] in
      if attr_get c ''type'' = Some ''int''
      then (case py_int v of Some i \<Rightarrow> PInt i | None \<Rightarrow> PStr v)
      else PStr v)"

definition emittedDefault :: "pyval \<Rightarrow> pyval" where
  "emittedDefault v =
     (if v = PStr ''true'' then PBool True
      else if v = PStr ''false'' then PBool False
      else case v of
             PStr s \<Rightarrow> (case py_int s of Some i \<Rightarrow> PInt i | None \<Rightarrow> PStr s)
           | _ \<Rightarrow> v)"

lemma choiceValue_ok:
  assumes "choice_ok c" and "attr_get c ''value'' = Some v"
  shows "\<exists>l. choiceValue c v = (l, Inr (choiceEnumValue c))"
  using assms
  by (auto simp: choice_ok_def choiceValue_def choiceEnumValue_def attr_get_or_def Let_def
      ret_def print_def truthy_def)

lemma coerceDefault_choiceEnumValue:
  "coerceDefault (choiceEnumValue c) = ret (emittedDefault (choiceEnumValue c))"
  by (auto simp: coerceDefault_def emittedDefault_def choiceEnumValue_def Let_def
      split: option.splits)

lemma choiceLoop_ok:
  assumes "\<forall>c\<in>set cs. choice_ok c"
  shows "\<exists>l. choiceLoop cs vals comments dflt =
     (l, Inr (Some (vals @ map choiceEnumValue cs,
        fold (\<lambda>c cm. if truthy (attr_get c ''comment'')
                      then dict_set (choiceEnumValue c) (opt_str (attr_get c ''comment'')) cm
                      else cm) cs comments,
        fold (\<lambda>c d. if truthy (attr_get c ''default'') then Some (choiceEnumValue c) else d)
          cs dflt)))"
  using assms
proof (induction cs arbitrary: vals comments dflt)
  case Nil
  show ?case by (simp add: ret_def)
next
  case (Cons c cs)
  from Cons.prems have ok: "choice_ok c" and rest: "\<forall>c\<in>set cs. choice_ok c"
    by simp_all
  obtain v where v: "attr_get c ''value'' = Some v"
    using ok by (auto simp: choice_ok_def)
  obtain l where l: "choiceValue c v = (l, Inr (choiceEnumValue c))"
    using choiceValue_ok [OF ok v] by blast
  have t: "tag c = ''choice''"
    using ok by (simp add: choice_ok_def)
  show ?case
    using Cons.IH [OF rest, of "vals @ [choiceEnumValue c]"
        "if truthy (attr_get c ''comment'')
         then dict_set (choiceEnumValue c) (opt_str (attr_get c ''comment'')) comments
         else comments"
        "if truthy (attr_get c ''default'') then Some (choiceEnumValue c) else dflt"]
    by (auto simp: t v l Let_def)
qed

lemma dict_set_not_Nil: "dict_set k v d \<noteq> []"
  by (cases d) (auto split: if_splits)

lemma fold_comments_Nil:
  "fold (\<lambda>c cm. if P c then dict_set (f c) (g c) cm else cm) cs comments = []
     \<longleftrightarrow> comments = [] \<and> (\<forall>c\<in>set cs. \<not> P c)"
  by (induction cs arbitrary: comments) (auto simp: dict_set_not_Nil)

lemma fold_default:
  "fold (\<lambda>c d. if P c then Some (f c) else d) cs dflt =
     (case filter P cs of [] \<Rightarrow> dflt | ms \<Rightarrow> Some (f (last ms)))"
  by (induction cs arbitrary: dflt) (auto split: list.splits)

text \<open>
  C6, as the code has it. When every child of the parameter is a well-formed choice,
  \<^verbatim>\<open>getChoiceJsonParam\<close> returns an object whose \<^verbatim>\<open>enum\<close> lists the values of the
  children in document order, one entry per child (an integer where the child has
  \<^verbatim>\<open>type="int"\<close>); its \<^verbatim>\<open>default\<close> is that of the last child with a non-empty
  \<^verbatim>\<open>default\<close> attribute, \<^verbatim>\<open>"true"\<close> and \<^verbatim>\<open>"false"\<close> as booleans, else an integer
  when the value is an integer literal, else the string; and it has a
  \<^verbatim>\<open>value_comment\<close> exactly when some child has a non-empty \<^verbatim>\<open>comment\<close>.
\<close>

theorem C6_choice_param:
  assumes "\<forall>c\<in>set (getchildren param). choice_ok c"
  shows "\<exists>log obj.
      getChoiceJsonParam param = (log, Inr (Some obj))
    \<and> dict_get obj (PStr ''enum'') = Some (PList (map choiceEnumValue (getchildren param)))
    \<and> dict_get obj (PStr ''default'') =
        (case filter (\<lambda>c. truthy (attr_get c ''default'')) (getchildren param) of
           [] \<Rightarrow> None
         | ms \<Rightarrow> Some (emittedDefault (choiceEnumValue (last ms))))
    \<and> (dict_has obj (PStr ''value_comment'')
         \<longleftrightarrow> (\<exists>c\<in>set (getchildren param). truthy (attr_get c ''comment'')))"
proof -
  let ?cs = "getchildren param"
  let ?comments = "fold (\<lambda>c cm. if truthy (attr_get c ''comment'')
                      then dict_set (choiceEnumValue c) (opt_str (attr_get c ''comment'')) cm
                      else cm) ?cs []"
  let ?ms = "filter (\<lambda>c. truthy (attr_get c ''default'')) ?cs"
  obtain l where l: "choiceLoop ?cs [] [] None =
     (l, Inr (Some (map choiceEnumValue ?cs, ?comments,
        case ?ms of [] \<Rightarrow> None | ms \<Rightarrow> Some (choiceEnumValue (last ms)))))"
    using choiceLoop_ok [OF assms, of "[]" "[]" None] by (auto simp: fold_default)
  have c: "?comments \<noteq> [] \<longleftrightarrow> (\<exists>c\<in>set ?cs. truthy (attr_get c ''comment''))"
    by (simp add: fold_comments_Nil)
  show ?thesis
  proof (cases ?ms)
    case Nil
    show ?thesis
      using c
      by (simp add: getChoiceJsonParam_def Let_def l Nil ret_def print_when_def print_def
          dict_simps dict_has_def)
  next
    case (Cons m ms)
    show ?thesis
      using c
      by (simp add: getChoiceJsonParam_def Let_def l Cons coerceDefault_choiceEnumValue
          ret_def print_when_def print_def dict_simps dict_has_def)
  qed
qed

lemmas py_int_defs = py_int_def py_strip_def py_isspace_def is_digit_def digit_val_def

theorem C6_choice_param_witness:
  "\<exists>log obj.
      getChoiceJsonParam ex_choice_param = (log, Inr (Some obj))
    \<and> dict_get obj (PStr ''enum'') = Some (PList [PStr ''a'', PStr ''b''])
    \<and> dict_get obj (PStr ''default'') = Some (PStr ''a'')
    \<and> \<not> dict_has obj (PStr ''value_comment'')"
proof -
  have ok: "\<forall>c\<in>set (getchildren ex_choice_param). choice_ok c"
    by (simp add: ex6_defs choice_ok_def attr_get_def)
  have e: "map choiceEnumValue (getchildren ex_choice_param) = [PStr ''a'', PStr ''b'']"
    "filter (\<lambda>c. truthy (attr_get c ''default'')) (getchildren ex_choice_param)
       = [Element ''choice'' [(''value'', ''a''), (''default'', ''1'')] []]"
    "emittedDefault (choiceEnumValue (Element ''choice'' [(''value'', ''a''), (''default'', ''1'')] []))
       = PStr ''a''"
    "\<not> (\<exists>c\<in>set (getchildren ex_choice_param). truthy (attr_get c ''comment''))"
    by (simp_all add: ex6_defs choiceEnumValue_def emittedDefault_def attr_get_def
        attr_get_or_def truthy_def py_int_defs)
  show ?thesis
    using C6_choice_param [OF ok] e by simp
qed

text \<open>
  The claim as it was stated fails where the coercion itself fails: the one child below
  is a \<^verbatim>\<open><choice>\<close> with a \<^verbatim>\<open>value\<close>, its type is \<^verbatim>\<open>int\<close> and its value is not a
  number, and \<^verbatim>\<open>int(value)\<close> at line 102 raises \<^verbatim>\<open>ValueError\<close>, so no object is
  returned.
\<close>

theorem C6_counterexample:
  "getchildren ex_bad_int_choice = [Element ''choice'' [(''type'', ''int''), (''value'', ''abc'')] []]
   \<and> attr_get (Element ''choice'' [(''type'', ''int''), (''value'', ''abc'')] []) ''value''
       = Some ''abc''
   \<and> getChoiceJsonParam ex_bad_int_choice = ([], Inl ValueError)"
  by (simp add: ex6_defs eval_defs py_int_defs)

section \<open>List parameters\<close>

lemma getListSchema_single_plain:
  assumes "findall ''item'' elem = [item]" and "attr_get item ''type'' = Some T"
    and "T \<noteq> []" and "T \<noteq> ''choice''" and "T \<noteq> ''dict''"
    and "attr_get elem ''length'' = None"
  shows "getListSchema elem newType =
     ([], Inr [(PStr ''type'', jtype_val newType),
               (PStr ''items'', PDict [(PStr ''title'', PStr (attr_get_or item ''comment'' [])),
                                       (PStr ''type'', PStr T)])])"
  using assms
  by (simp add: getListSchema.simps getListItemSchema.simps Let_def truthy_def opt_str_def ret_def)

lemma getJsonParam_list_single_plain:
  assumes "attr_get param ''type'' = Some ''list''" and "\<not> truthy (attr_get param ''value'')"
    and "findall ''item'' param = [item]" and "attr_get item ''type'' = Some T"
    and "T \<noteq> []" and "T \<noteq> ''choice''" and "T \<noteq> ''dict''"
    and "attr_get param ''length'' = None"
  shows "\<exists>obj. getJsonParam param = ([], Inr (Some obj))
     \<and> dict_get obj (PStr ''schema'') =
         Some (PDict [(PStr ''type'', PStr ''array''),
               (PStr ''items'', PDict [(PStr ''title'', PStr (attr_get_or item ''comment'' [])),
                                       (PStr ''type'', PStr T)])])"
proof -
  have l: "lookupType ''list'' = ret (ParamType (Single ''array'') [] [])"
    by (simp add: lookupType_def paramTypeMapping_def paramTypeMapping_items_def)
  show ?thesis
    apply (subst getJsonParam.simps)
    using assms(1,2)
    apply (simp add: Let_def print_when_def truthy_def attr_get_or_def l ParamType_def
        getListSchema_single_plain [OF assms(3-8)] ret_def dict_get_addParamExtraAttrs dict_simps)
    done
qed

lemma bind_ret_InrD:
  assumes "bind_res m (\<lambda>x. ret (f x)) = (l, Inr y)"
  shows "\<exists>x. y = f x"
  using bind_res_InrD [OF assms] by (auto simp: ret_eq)

lemma getListSchema_length:
  assumes "getListSchema elem newType = (l, Inr sch)"
  shows "dict_get sch (PStr ''length'') =
     (case attr_get elem ''length'' of
        None \<Rightarrow> None
      | Some len \<Rightarrow> if len \<noteq> [] \<and> len \<noteq> ''-1'' then Some (PStr len) else None)"
proof -
  define X where "X =
     (if findall ''item'' elem \<noteq> [] then
        (if length (findall ''item'' elem) > 1 then
           bind_res (getMultiTypeListItemSchema (findall ''item'' elem)) (\<lambda>itemSchema.
             ret (if itemSchema \<noteq> []
                  then dict_set (PStr ''items'') (PList (map PDict itemSchema))
                         [(PStr ''type'', jtype_val newType)]
                  else [(PStr ''type'', jtype_val newType)]))
         else
           bind_res (getListItemSchema (hd (findall ''item'' elem))) (\<lambda>itemSchema.
             ret (case itemSchema of
                    None \<Rightarrow> [(PStr ''type'', jtype_val newType)]
                  | Some d \<Rightarrow> if d \<noteq> []
                             then dict_set (PStr ''items'') (PDict d)
                                    [(PStr ''type'', jtype_val newType)]
                             else [(PStr ''type'', jtype_val newType)])))
      else ret [(PStr ''type'', jtype_val newType)])"
  have E: "getListSchema elem newType =
     bind_res X (\<lambda>schema.
       ret (if truthy (attr_get elem ''length'') \<and> attr_get elem ''length'' \<noteq> Some ''-1''
            then dict_set (PStr ''length'') (opt_str (attr_get elem ''length'')) schema
            else schema))"
    by (simp add: getListSchema.simps Let_def X_def)
  from bind_res_InrD [OF assms [unfolded E]] obtain l1 s0 where
    X: "X = (l1, Inr s0)" and
    sch: "sch = (if truthy (attr_get elem ''length'') \<and> attr_get elem ''length'' \<noteq> Some ''-1''
            then dict_set (PStr ''length'') (opt_str (attr_get elem ''length'')) s0
            else s0)"
    by (auto simp: ret_eq)
  have "dict_get s0 (PStr ''length'') = None"
  proof (cases "findall ''item'' elem \<noteq> []")
    case False
    then show ?thesis using X by (auto simp: X_def ret_eq dict_simps)
  next
    case True
    show ?thesis
    proof (cases "length (findall ''item'' elem) > 1")
      case m: True
      then have "\<exists>x. s0 = (if x \<noteq> []
                  then dict_set (PStr ''items'') (PList (map PDict x))
                         [(PStr ''type'', jtype_val newType)]
                  else [(PStr ''type'', jtype_val newType)])"
        using X True by (intro bind_ret_InrD [of _ _ l1]) (simp add: X_def)
      then show ?thesis
        by (auto simp: dict_simps)
    next
      case s: False
      then have "\<exists>x. s0 = (case x of
                    None \<Rightarrow> [(PStr ''type'', jtype_val newType)]
                  | Some d \<Rightarrow> if d \<noteq> []
                             then dict_set (PStr ''items'') (PDict d)
                                    [(PStr ''type'', jtype_val newType)]
                             else [(PStr ''type'', jtype_val newType)])"
        using X True by (intro bind_ret_InrD [of _ _ l1]) (simp add: X_def)
      then show ?thesis
        by (auto simp: dict_simps split: option.splits)
    qed
  qed
  then show ?thesis
    unfolding sch
    by (cases "attr_get elem ''length''") (auto simp: truthy_def opt_str_def dict_simps)
qed

text \<open>
  C8, as the code has it. An element with exactly one \<^verbatim>\<open><item>\<close> child of a plain
  type \<open>T\<close> (non-empty, neither \<^verbatim>\<open>choice\<close> nor \<^verbatim>\<open>dict\<close>) and no \<^verbatim>\<open>length\<close>
  attribute gets the list schema with the item's title and its source type \<open>T\<close>
  unmapped, and no \<^verbatim>\<open>length\<close> key; for a \<^verbatim>\<open><param type="list">\<close> without a
  \<^verbatim>\<open>value\<close> that is the emitted schema, with the type \<^verbatim>\<open>array\<close>. Whenever a list
  schema is produced, its \<^verbatim>\<open>length\<close> is the \<^verbatim>\<open>length\<close> attribute as a string when
  the attribute is present, non-empty and not \<^verbatim>\<open>-1\<close>, and is absent otherwise.
\<close>

theorem C8_list_schema:
  "(\<forall>elem item T newType.
       findall ''item'' elem = [item] \<and> attr_get item ''type'' = Some T
       \<and> T \<noteq> [] \<and> T \<noteq> ''choice'' \<and> T \<noteq> ''dict'' \<and> attr_get elem ''length'' = None
       \<longrightarrow> getListSchema elem newType =
           ([], Inr [(PStr ''type'', jtype_val newType),
                     (PStr ''items'',
                        PDict [(PStr ''title'', PStr (attr_get_or item ''comment'' [])),
                               (PStr ''type'', PStr T)])]))
   \<and> (\<forall>param item T.
       attr_get param ''type'' = Some ''list'' \<and> \<not> truthy (attr_get param ''value'')
       \<and> findall ''item'' param = [item] \<and> attr_get item ''type'' = Some T
       \<and> T \<noteq> [] \<and> T \<noteq> ''choice'' \<and> T \<noteq> ''dict'' \<and> attr_get param ''length'' = None
       \<longrightarrow> (\<exists>obj. getJsonParam param = ([], Inr (Some obj))
             \<and> dict_get obj (PStr ''schema'') =
                 Some (PDict [(PStr ''type'', PStr ''array''),
                       (PStr ''items'',
                          PDict [(PStr ''title'', PStr (attr_get_or item ''comment'' [])),
                                 (PStr ''type'', PStr T)])])))
   \<and> (\<forall>elem newType l sch.
       getListSchema elem newType = (l, Inr sch)
       \<longrightarrow> dict_get sch (PStr ''length'') =
            (case attr_get elem ''length'' of
               None \<Rightarrow> None
             | Some len \<Rightarrow> if len \<noteq> [] \<and> len \<noteq> ''-1'' then Some (PStr len) else None))"
  apply (intro conjI allI impI)
    apply (elim conjE)
    apply (rule getListSchema_single_plain; assumption)
   apply (elim conjE)
   apply (rule getJsonParam_list_single_plain; assumption)
  apply (rule getListSchema_length; assumption)
  done

theorem C8_list_schema_witness:
  "getListSchema ex_list_param (Single ''array'') =
     ([], Inr [(PStr ''type'', PStr ''array''),
               (PStr ''items'', PDict [(PStr ''title'', PStr []), (PStr ''type'', PStr ''int'')])])
   \<and> (\<exists>obj. getJsonParam ex_list_param = ([], Inr (Some obj))
        \<and> dict_get obj (PStr ''schema'') =
            Some (PDict [(PStr ''type'', PStr ''array''),
                  (PStr ''items'', PDict [(PStr ''title'', PStr []), (PStr ''type'', PStr ''int'')])]))
   \<and> (\<exists>l sch. getListSchema (ex_list_length ''5'') (Single ''array'') = (l, Inr sch)
        \<and> dict_get sch (PStr ''length'') = Some (PStr ''5''))
   \<and> (\<exists>l sch. getListSchema (ex_list_length ''-1'') (Single ''array'') = (l, Inr sch)
        \<and> dict_get sch (PStr ''length'') = None)"
proof -
  have h: "findall ''item'' ex_list_param = [Element ''item'' [(''type'', ''int'')] []]"
    "attr_get (Element ''item'' [(''type'', ''int'')] []) ''type'' = Some ''int''"
    "attr_get ex_list_param ''length'' = None" "attr_get ex_list_param ''type'' = Some ''list''"
    "\<not> truthy (attr_get ex_list_param ''value'')"
    "attr_get_or (Element ''item'' [(''type'', ''int'')] []) ''comment'' [] = []"
    by (simp_all add: ex8_defs findall_def attr_get_def attr_get_or_def truthy_def)
  have 1: "getListSchema ex_list_param (Single ''array'') =
     ([], Inr [(PStr ''type'', PStr ''array''),
               (PStr ''items'', PDict [(PStr ''title'', PStr []), (PStr ''type'', PStr ''int'')])])"
    using C8_list_schema [THEN conjunct1, rule_format,
        of ex_list_param "Element ''item'' [(''type'', ''int'')] []" "''int''" "Single ''array''"] h
    by simp
  have 2: "\<exists>obj. getJsonParam ex_list_param = ([], Inr (Some obj))
        \<and> dict_get obj (PStr ''schema'') =
            Some (PDict [(PStr ''type'', PStr ''array''),
                  (PStr ''items'', PDict [(PStr ''title'', PStr []), (PStr ''type'', PStr ''int'')])])"
    using C8_list_schema [THEN conjunct2, THEN conjunct1, rule_format,
        of ex_list_param "Element ''item'' [(''type'', ''int'')] []" "''int''"] h
    by simp
  have e: "\<exists>l sch. getListSchema (ex_list_length len) (Single ''array'') = (l, Inr sch)" for len
    by (simp add: ex8_defs getListSchema.simps findall_def Let_def ret_def)
  have a: "attr_get (ex_list_length len) ''length'' = Some len" for len
    by (simp add: ex8_defs attr_get_def)
  have 3: "\<exists>l sch. getListSchema (ex_list_length ''5'') (Single ''array'') = (l, Inr sch)
        \<and> dict_get sch (PStr ''length'') = Some (PStr ''5'')"
    using e [of "''5''"] C8_list_schema [THEN conjunct2, THEN conjunct2, rule_format,
        of "ex_list_length ''5''" "Single ''array''"] a [of "''5''"]
    by fastforce
  have 4: "\<exists>l sch. getListSchema (ex_list_length ''-1'') (Single ''array'') = (l, Inr sch)
        \<and> dict_get sch (PStr ''length'') = None"
    using e [of "''-1''"] C8_list_schema [THEN conjunct2, THEN conjunct2, rule_format,
        of "ex_list_length ''-1''" "Single ''array''"] a [of "''-1''"]
    by fastforce
  show ?thesis using 1 2 3 4 by blast
qed

text \<open>
  The claim as it was stated fails for an empty \<^verbatim>\<open>length\<close> attribute: it is present and
  is not \<^verbatim>\<open>-1\<close>, and the schema has no \<^verbatim>\<open>length\<close> key.
\<close>

theorem C8_counterexample:
  "attr_get (ex_list_length []) ''length'' = Some []
   \<and> [] \<noteq> ''-1''
   \<and> getListSchema (ex_list_length []) (Single ''array'') = ([], Inr [(PStr ''type'', PStr ''array'')])
   \<and> dict_get [(PStr ''type'', PStr ''array'')] (PStr ''length'') = None"
  by (simp add: ex8_defs eval_defs)

section \<open>Dictionaries with dynamic keys\<close>

lemma getJsonParam_int_value:
  assumes "attrib v = [(''type'', ''int'')]"
  shows "getJsonParam v =
    ([], Inr (Some [(PStr ''description'', PStr []),
                    (PStr ''schema'', PDict [(PStr ''type'', PStr ''number'')])]))"
proof -
  have l: "lookupType ''int'' = ret (ParamType (Single ''number'') [] [])"
    by (simp add: lookupType_def paramTypeMapping_def paramTypeMapping_items_def)
  show ?thesis
    apply (subst getJsonParam.simps)
    apply (simp add: assms attr_get_def attr_get_or_def Let_def print_when_def truthy_def l
        ParamType_def ret_def addParamExtraAttrs_def dict_simps)
    done
qed

lemma setDynamicKeys_key_value:
  assumes "find_child ''key'' param = Some k" and "find_child ''value'' param = Some v"
    and "attrib v = [(''type'', ''int'')]"
  shows "setDynamicKeys param schema =
    ([], Inr (dict_set (PStr ''__value__'')
                (PDict [(PStr ''description'', PStr []), (PStr ''type'', PStr ''number'')])
             (dict_set (PStr ''__key__'')
                (PDict [(PStr ''type'', PStr (attr_get_or k ''type'' [])),
                        (PStr ''title'', PStr (attr_get_or k ''comment'' []))])
             (dict_set (PStr ''dynamic_keys'') (PBool True) schema))))"
  by (simp add: setDynamicKeys.simps assms(1,2) Let_def getJsonParam_int_value [OF assms(3)]
      flattenSchema_def dict_simps dict_del_def ret_def)

lemma setDynamicKeys_key_only:
  assumes "find_child ''key'' param = Some k" and "find_child ''value'' param = None"
  shows "setDynamicKeys param schema =
    ([KeyWithoutValue param], Inr (dict_set (PStr ''dynamic_keys'') (PBool True) schema))"
  by (simp add: setDynamicKeys.simps assms Let_def print_def ret_def)

lemma setDynamicKeys_sets_flag:
  assumes "setDynamicKeys param schema = (l, Inr s)"
  shows "dict_get s (PStr ''dynamic_keys'') = Some (PBool True)"
proof (cases "find_child ''key'' param")
  case None
  then show ?thesis
    using assms by (auto simp: setDynamicKeys.simps Let_def ret_eq dict_simps)
next
  case k: (Some k)
  show ?thesis
  proof (cases "find_child ''value'' param")
    case None
    then show ?thesis
      using assms k by (auto simp: setDynamicKeys.simps Let_def print_ret_eq dict_simps)
  next
    case (Some v)
    let ?s = "dict_set (PStr ''__key__'')
                (PDict [(PStr ''type'', PStr (attr_get_or k ''type'' [])),
                        (PStr ''title'', PStr (attr_get_or k ''comment'' []))])
                (dict_set (PStr ''dynamic_keys'') (PBool True) schema)"
    have "bind_res (getJsonParam v) (\<lambda>valueJson.
            case valueJson of
              None \<Rightarrow> raise TypeError
            | Some valueJson \<Rightarrow>
                bind_res (flattenSchema valueJson) (\<lambda>valueJson.
                  ret (dict_set (PStr ''__value__'') (PDict valueJson) ?s)))
          = (l, Inr s)"
      using assms k Some by (simp add: setDynamicKeys.simps Let_def)
    from bind_res_InrD [OF this] obtain x l2 where
      "(case x of
              None \<Rightarrow> raise TypeError
            | Some valueJson \<Rightarrow>
                bind_res (flattenSchema valueJson) (\<lambda>valueJson.
                  ret (dict_set (PStr ''__value__'') (PDict valueJson) ?s)))
          = (l2, Inr s)"
      by auto
    then have "\<exists>y. s = dict_set (PStr ''__value__'') (PDict y) ?s"
      by (cases x) (auto simp: raise_def dest: bind_ret_InrD)
    then show ?thesis
      by (auto simp: dict_simps)
  qed
qed

lemma setDictParamsSchema_dynamicD:
  assumes "setDictParamsSchema param schema = (l, Inr sch)"
    and "attr_get param ''dynamic_keys'' = Some ''true''"
  shows "\<exists>l1 l2 s props. setDynamicKeys param schema = (l2, Inr s)
      \<and> sch = dict_set (PStr ''properties'') (PDict props) s \<and> l = l1 @ l2"
proof -
  note A = assms(1) [unfolded setDictParamsSchema.simps, simplified assms(2), simplified]
  from bind_res_InrD [OF A] obtain lp ps l' where
    B: "bind_res (propertiesLoop ps [])
          (\<lambda>properties. bind_res (setDynamicKeys param schema)
             (\<lambda>schema. ret (dict_set (PStr ''properties'') (PDict properties) schema)))
        = (l', Inr sch)" and l: "l = lp @ l'"
    by auto
  from bind_res_InrD [OF B] obtain lq props l'' where
    C: "bind_res (setDynamicKeys param schema)
             (\<lambda>schema. ret (dict_set (PStr ''properties'') (PDict props) schema))
        = (l'', Inr sch)" and l': "l' = lq @ l''"
    by auto
  from bind_res_InrD [OF C] obtain l2 s where
    "setDynamicKeys param schema = (l2, Inr s)"
    "sch = dict_set (PStr ''properties'') (PDict props) s" "l'' = l2"
    by (auto simp: ret_eq)
  then show ?thesis
    using l l' by (intro exI [of _ "lp @ lq"] exI [of _ l2] exI [of _ s] exI [of _ props]) simp
qed

lemma getJsonParam_dict_schemaD:
  assumes "getJsonParam param = (log, Inr (Some obj))"
    and "dict_get obj (PStr ''schema'') = Some (PDict sch)"
    and "attr_get param ''type'' = Some ''dict''"
  shows "setDictParamsSchema param [(PStr ''type'', PStr ''object'')] = (log, Inr sch)"
proof -
  have l: "lookupType ''dict'' = ret (ParamType (Single ''object'') [] [])"
    by (simp add: lookupType_def paramTypeMapping_def paramTypeMapping_items_def)
  have nv: "\<not> truthy (attr_get param ''value'')"
  proof
    assume "truthy (attr_get param ''value'')"
    then have "getJsonParam param = ret (Some (addParamExtraAttrs param
                         [(PStr ''name'', opt_str (attr_get param ''name'')),
                          (PStr ''description'', PStr (attr_get_or param ''comment'' [])),
                          (PStr ''enum'', PList [opt_str (attr_get param ''value'')])]))"
      by (subst getJsonParam.simps)
        (simp add: assms(3) Let_def print_when_def truthy_def attr_get_or_def l)
    then have "obj = addParamExtraAttrs param
                         [(PStr ''name'', opt_str (attr_get param ''name'')),
                          (PStr ''description'', PStr (attr_get_or param ''comment'' [])),
                          (PStr ''enum'', PList [opt_str (attr_get param ''value'')])]"
      using assms(1) by (simp add: ret_def)
    then show False
      using assms(2) by (simp add: dict_get_addParamExtraAttrs dict_simps)
  qed
  have E: "getJsonParam param =
      bind_res (setDictParamsSchema param [(PStr ''type'', PStr ''object'')])
        (\<lambda>schema. ret (Some (addParamExtraAttrs param
           (dict_update (if truthy (attr_get param ''name'')
                         then [(PStr ''name'', opt_str (attr_get param ''name''))] else [])
              [(PStr ''description'', PStr (attr_get_or param ''comment'' [])),
               (PStr ''schema'', PDict schema)]))))"
    using nv
    by (subst getJsonParam.simps)
      (simp add: assms(3) Let_def print_when_def truthy_def attr_get_or_def l ParamType_def)
  from bind_res_InrD [OF assms(1) [unfolded E]] obtain l1 s where
    S: "setDictParamsSchema param [(PStr ''type'', PStr ''object'')] = (l1, Inr s)"
    and o: "obj = addParamExtraAttrs param
           (dict_update (if truthy (attr_get param ''name'')
                         then [(PStr ''name'', opt_str (attr_get param ''name''))] else [])
              [(PStr ''description'', PStr (attr_get_or param ''comment'' [])),
               (PStr ''schema'', PDict s)])"
    and "log = l1"
    by (auto simp: ret_eq)
  have "dict_get obj (PStr ''schema'') = Some (PDict s)"
    unfolding o by (simp add: dict_get_addParamExtraAttrs dict_simps)
  then show ?thesis
    using assms(2) S \<open>log = l1\<close> by simp
qed

text \<open>
  C7. Let a parameter have a \<^verbatim>\<open><key>\<close> child (\<open>k\<close> the first). If it also has a
  \<^verbatim>\<open><value>\<close> child and the first one is \<^verbatim>\<open><value type="int"/>\<close>, then
  \<^verbatim>\<open>setDynamicKeys\<close> sets \<^verbatim>\<open>dynamic_keys\<close> to true, \<^verbatim>\<open>__key__\<close> to the type and the
  comment of \<open>k\<close> (for \<^verbatim>\<open><key type="str" comment="k"/>\<close> the object with type
  \<^verbatim>\<open>str\<close> and title \<^verbatim>\<open>k\<close>) and \<^verbatim>\<open>__value__\<close> to the flattened value, whose type is
  \<^verbatim>\<open>number\<close>, the table's entry for \<^verbatim>\<open>int\<close>; if it has no \<^verbatim>\<open><value>\<close> child,
  \<^verbatim>\<open>setDynamicKeys\<close> prints the diagnostic, sets only \<^verbatim>\<open>dynamic_keys\<close> and returns,
  so that \<^verbatim>\<open>setDictParamsSchema\<close> goes on. For a \<^verbatim>\<open><param type="dict"
  dynamic_keys="true">\<close> the schema that \<^verbatim>\<open>getJsonParam\<close> emits has these entries; in the
  case without a \<^verbatim>\<open><value>\<close> it has neither \<^verbatim>\<open>__key__\<close> nor \<^verbatim>\<open>__value__\<close> and the
  diagnostic was printed.
\<close>

theorem C7_dynamic_keys:
  assumes "find_child ''key'' param = Some k"
  shows "(\<forall>v schema. find_child ''value'' param = Some v \<and> attrib v = [(''type'', ''int'')]
          \<longrightarrow> setDynamicKeys param schema =
               ([], Inr (dict_set (PStr ''__value__'')
                     (PDict [(PStr ''description'', PStr []), (PStr ''type'', PStr ''number'')])
                  (dict_set (PStr ''__key__'')
                     (PDict [(PStr ''type'', PStr (attr_get_or k ''type'' [])),
                             (PStr ''title'', PStr (attr_get_or k ''comment'' []))])
                  (dict_set (PStr ''dynamic_keys'') (PBool True) schema)))))
    \<and> (\<forall>schema. find_child ''value'' param = None
          \<longrightarrow> setDynamicKeys param schema =
               ([KeyWithoutValue param],
                Inr (dict_set (PStr ''dynamic_keys'') (PBool True) schema)))
    \<and> (\<forall>log obj sch.
          attr_get param ''type'' = Some ''dict''
          \<and> attr_get param ''dynamic_keys'' = Some ''true''
          \<and> getJsonParam param = (log, Inr (Some obj))
          \<and> dict_get obj (PStr ''schema'') = Some (PDict sch)
          \<longrightarrow> dict_get sch (PStr ''dynamic_keys'') = Some (PBool True)
            \<and> (\<forall>v. find_child ''value'' param = Some v \<and> attrib v = [(''type'', ''int'')]
                  \<longrightarrow> dict_get sch (PStr ''__key__'') =
                        Some (PDict [(PStr ''type'', PStr (attr_get_or k ''type'' [])),
                                     (PStr ''title'', PStr (attr_get_or k ''comment'' []))])
                    \<and> dict_get sch (PStr ''__value__'') =
                        Some (PDict [(PStr ''description'', PStr []),
                                     (PStr ''type'', PStr ''number'')]))
            \<and> (find_child ''value'' param = None
                  \<longrightarrow> KeyWithoutValue param \<in> set log
                    \<and> dict_get sch (PStr ''__key__'') = None
                    \<and> dict_get sch (PStr ''__value__'') = None
                    \<and> dict_has sch (PStr ''properties'')))"
proof (intro conjI allI impI)
  fix v schema
  assume "find_child ''value'' param = Some v \<and> attrib v = [(''type'', ''int'')]"
  then show "setDynamicKeys param schema =
               ([], Inr (dict_set (PStr ''__value__'')
                     (PDict [(PStr ''description'', PStr []), (PStr ''type'', PStr ''number'')])
                  (dict_set (PStr ''__key__'')
                     (PDict [(PStr ''type'', PStr (attr_get_or k ''type'' [])),
                             (PStr ''title'', PStr (attr_get_or k ''comment'' []))])
                  (dict_set (PStr ''dynamic_keys'') (PBool True) schema))))"
    using setDynamicKeys_key_value [OF assms] by blast
next
  fix schema
  assume "find_child ''value'' param = None"
  then show "setDynamicKeys param schema =
               ([KeyWithoutValue param],
                Inr (dict_set (PStr ''dynamic_keys'') (PBool True) schema))"
    by (rule setDynamicKeys_key_only [OF assms])
next
  fix log obj sch
  assume H: "attr_get param ''type'' = Some ''dict''
          \<and> attr_get param ''dynamic_keys'' = Some ''true''
          \<and> getJsonParam param = (log, Inr (Some obj))
          \<and> dict_get obj (PStr ''schema'') = Some (PDict sch)"
  then have S: "setDictParamsSchema param [(PStr ''type'', PStr ''object'')] = (log, Inr sch)"
    using getJsonParam_dict_schemaD by blast
  from setDictParamsSchema_dynamicD [OF S] H obtain l1 l2 s props where
    D: "setDynamicKeys param [(PStr ''type'', PStr ''object'')] = (l2, Inr s)"
      "sch = dict_set (PStr ''properties'') (PDict props) s" "log = l1 @ l2"
    by blast
  show "dict_get sch (PStr ''dynamic_keys'') = Some (PBool True)"
    using setDynamicKeys_sets_flag [OF D(1)] D(2) by (simp add: dict_simps)
  {
    fix v
    assume "find_child ''value'' param = Some v \<and> attrib v = [(''type'', ''int'')]"
    then have "setDynamicKeys param [(PStr ''type'', PStr ''object'')] =
               ([], Inr (dict_set (PStr ''__value__'')
                     (PDict [(PStr ''description'', PStr []), (PStr ''type'', PStr ''number'')])
                  (dict_set (PStr ''__key__'')
                     (PDict [(PStr ''type'', PStr (attr_get_or k ''type'' [])),
                             (PStr ''title'', PStr (attr_get_or k ''comment'' []))])
                  (dict_set (PStr ''dynamic_keys'') (PBool True)
                     [(PStr ''type'', PStr ''object'')]))))"
      using setDynamicKeys_key_value [OF assms] by blast
    then show "dict_get sch (PStr ''__key__'') =
                        Some (PDict [(PStr ''type'', PStr (attr_get_or k ''type'' [])),
                                     (PStr ''title'', PStr (attr_get_or k ''comment'' []))])"
      and "dict_get sch (PStr ''__value__'') =
                        Some (PDict [(PStr ''description'', PStr []),
                                     (PStr ''type'', PStr ''number'')])"
      using D by (simp_all add: dict_simps)
  }
  {
    assume N: "find_child ''value'' param = None"
    note K = setDynamicKeys_key_only [OF assms N, of "[(PStr ''type'', PStr ''object'')]"]
    show "KeyWithoutValue param \<in> set log"
      using D K by auto
    show "dict_get sch (PStr ''__key__'') = None"
      using D K by (auto simp: dict_simps)
    show "dict_get sch (PStr ''__value__'') = None"
      using D K by (auto simp: dict_simps)
    show "dict_has sch (PStr ''properties'')"
      using D by (simp add: dict_simps)
  }
qed

theorem C7_dynamic_keys_witness:
  "setDynamicKeys ex_dyn_param [] =
     ([], Inr [(PStr ''dynamic_keys'', PBool True),
               (PStr ''__key__'', PDict [(PStr ''type'', PStr ''str''), (PStr ''title'', PStr ''k'')]),
               (PStr ''__value__'',
                  PDict [(PStr ''description'', PStr []), (PStr ''type'', PStr ''number'')])])
   \<and> setDynamicKeys ex_key_only_param [] =
       ([KeyWithoutValue ex_key_only_param], Inr [(PStr ''dynamic_keys'', PBool True)])
   \<and> (\<exists>log obj sch.
         getJsonParam ex_dyn_param = (log, Inr (Some obj))
       \<and> dict_get obj (PStr ''schema'') = Some (PDict sch)
       \<and> dict_get sch (PStr ''dynamic_keys'') = Some (PBool True)
       \<and> dict_get sch (PStr ''__key__'') =
           Some (PDict [(PStr ''type'', PStr ''str''), (PStr ''title'', PStr ''k'')])
       \<and> dict_get sch (PStr ''__value__'') =
           Some (PDict [(PStr ''description'', PStr []), (PStr ''type'', PStr ''number'')]))
   \<and> (\<exists>log obj sch.
         getJsonParam ex_key_only_param = (log, Inr (Some obj))
       \<and> dict_get obj (PStr ''schema'') = Some (PDict sch)
       \<and> dict_get sch (PStr ''dynamic_keys'') = Some (PBool True)
       \<and> KeyWithoutValue ex_key_only_param \<in> set log
       \<and> dict_get sch (PStr ''__key__'') = None
       \<and> dict_get sch (PStr ''__value__'') = None
       \<and> dict_has sch (PStr ''properties''))"
proof -
  let ?k = "Element ''key'' [(''type'', ''str''), (''comment'', ''k'')] []"
  let ?v = "Element ''value'' [(''type'', ''int'')] []"
  have a: "find_child ''key'' ex_dyn_param = Some ?k"
    "find_child ''value'' ex_dyn_param = Some ?v" "attrib ?v = [(''type'', ''int'')]"
    "attr_get ex_dyn_param ''type'' = Some ''dict''"
    "attr_get ex_dyn_param ''dynamic_keys'' = Some ''true''"
    "attr_get_or ?k ''type'' [] = ''str''" "attr_get_or ?k ''comment'' [] = ''k''"
    by (simp_all add: ex7_defs find_child_def findall_def attr_get_def attr_get_or_def)
  have b: "find_child ''key'' ex_key_only_param = Some ?k"
    "find_child ''value'' ex_key_only_param = None"
    "attr_get ex_key_only_param ''type'' = Some ''dict''"
    "attr_get ex_key_only_param ''dynamic_keys'' = Some ''true''"
    by (simp_all add: ex7_defs find_child_def findall_def attr_get_def)
  note A = C7_dynamic_keys [OF a(1)]
  note B = C7_dynamic_keys [OF b(1)]
  have 1: "setDynamicKeys ex_dyn_param [] =
     ([], Inr [(PStr ''dynamic_keys'', PBool True),
               (PStr ''__key__'', PDict [(PStr ''type'', PStr ''str''), (PStr ''title'', PStr ''k'')]),
               (PStr ''__value__'',
                  PDict [(PStr ''description'', PStr []), (PStr ''type'', PStr ''number'')])])"
    using A [THEN conjunct1, rule_format, of ?v "[]"] a by simp
  have 2: "setDynamicKeys ex_key_only_param [] =
       ([KeyWithoutValue ex_key_only_param], Inr [(PStr ''dynamic_keys'', PBool True)])"
    using B [THEN conjunct2, THEN conjunct1, rule_format, of "[]"] b by simp
  have "\<exists>log obj sch. getJsonParam ex_dyn_param = (log, Inr (Some obj))
       \<and> dict_get obj (PStr ''schema'') = Some (PDict sch)"
    by (simp add: ex7_defs eval_defs)
  then obtain log obj sch where e: "getJsonParam ex_dyn_param = (log, Inr (Some obj))"
    "dict_get obj (PStr ''schema'') = Some (PDict sch)"
    by blast
  note A3 = A [THEN conjunct2, THEN conjunct2, rule_format, of log obj sch]
  have 3: "\<exists>log obj sch.
         getJsonParam ex_dyn_param = (log, Inr (Some obj))
       \<and> dict_get obj (PStr ''schema'') = Some (PDict sch)
       \<and> dict_get sch (PStr ''dynamic_keys'') = Some (PBool True)
       \<and> dict_get sch (PStr ''__key__'') =
           Some (PDict [(PStr ''type'', PStr ''str''), (PStr ''title'', PStr ''k'')])
       \<and> dict_get sch (PStr ''__value__'') =
           Some (PDict [(PStr ''description'', PStr []), (PStr ''type'', PStr ''number'')])"
    using A3 [THEN conjunct1] A3 [THEN conjunct2, THEN conjunct1, rule_format, of ?v] a e
    by auto
  have "\<exists>log obj sch. getJsonParam ex_key_only_param = (log, Inr (Some obj))
       \<and> dict_get obj (PStr ''schema'') = Some (PDict sch)"
    by (simp add: ex7_defs eval_defs)
  then obtain log' obj' sch' where e': "getJsonParam ex_key_only_param = (log', Inr (Some obj'))"
    "dict_get obj' (PStr ''schema'') = Some (PDict sch')"
    by blast
  note B3 = B [THEN conjunct2, THEN conjunct2, rule_format, of log' obj' sch']
  have 4: "\<exists>log obj sch.
         getJsonParam ex_key_only_param = (log, Inr (Some obj))
       \<and> dict_get obj (PStr ''schema'') = Some (PDict sch)
       \<and> dict_get sch (PStr ''dynamic_keys'') = Some (PBool True)
       \<and> KeyWithoutValue ex_key_only_param \<in> set log
       \<and> dict_get sch (PStr ''__key__'') = None
       \<and> dict_get sch (PStr ''__value__'') = None
       \<and> dict_has sch (PStr ''properties'')"
    using B3 [THEN conjunct1] B3 [THEN conjunct2, THEN conjunct2] b e'
    by auto
  show ?thesis
    using 1 2 3 4 by blast
qed

section \<open>Names of the emitted objects\<close>

lemma dict_get_name_addParamExtraAttrs:
  "dict_get (addParamExtraAttrs param d) (PStr ''name'') = dict_get d (PStr ''name'')"
  by (simp add: dict_get_addParamExtraAttrs)

lemma bind2_ret_InrD:
  assumes "bind_res m (\<lambda>x. bind_res (g x) (\<lambda>y. ret (h y))) = (l, Inr r)"
  shows "\<exists>y. r = h y"
  using bind_res_InrD [OF assms] by (auto dest: bind_ret_InrD)

lemma getChoiceJsonParam_name:
  assumes "getChoiceJsonParam param = (l, Inr (Some d))"
    and "truthy (attr_get param ''name'')"
  shows "dict_get d (PStr ''name'') = Some (opt_str (attr_get param ''name''))"
proof -
  define K where "K = (\<lambda>r. case r of
             None \<Rightarrow> ret None
           | Some (vals, comments, dflt) \<Rightarrow>
               bind_res (print_when (vals = []) (ChoiceNoValues param)) (\<lambda>_.
                 let paramJson = [];
                     paramJson = (if truthy (attr_get param ''name'')
                                  then dict_set (PStr ''name'') (opt_str (attr_get param ''name''))
                                         paramJson
                                  else paramJson);
                     paramJson = (if attr_get param ''comment'' \<noteq> None
                                  then dict_set (PStr ''description'')
                                         (opt_str (attr_get param ''comment'')) paramJson
                                  else paramJson);
                     paramJson = dict_set (PStr ''enum'') (PList vals) paramJson
                 in bind_res
                      (case dflt of
                         None \<Rightarrow> ret paramJson
                       | Some d \<Rightarrow>
                           bind_res (coerceDefault d) (\<lambda>d'.
                             ret (dict_set (PStr ''default'') d' paramJson)))
                      (\<lambda>paramJson.
                         ret (Some (if comments \<noteq> []
                                    then dict_set (PStr ''value_comment'') (PDict comments) paramJson
                                    else paramJson)))))"
  have E: "getChoiceJsonParam param = bind_res (choiceLoop (getchildren param) [] [] None) K"
    unfolding getChoiceJsonParam_def K_def Let_def ..
  from bind_res_InrD [OF assms(1) [unfolded E]] obtain r l2 where
    K: "K r = (l2, Inr (Some d))"
    by auto
  then obtain vals comments dflt where r: "r = Some (vals, comments, dflt)"
    by (cases r) (auto simp: K_def ret_eq)
  define base where "base =
     dict_set (PStr ''enum'') (PList vals)
       (if attr_get param ''comment'' \<noteq> None
        then dict_set (PStr ''description'') (opt_str (attr_get param ''comment''))
               (dict_set (PStr ''name'') (opt_str (attr_get param ''name'')) [])
        else dict_set (PStr ''name'') (opt_str (attr_get param ''name'')) [])"
  have b: "dict_get base (PStr ''name'') = Some (opt_str (attr_get param ''name''))"
    by (simp add: base_def dict_simps)
  have "K r = bind_res (print_when (vals = []) (ChoiceNoValues param)) (\<lambda>_.
          bind_res
            (case dflt of
               None \<Rightarrow> ret base
             | Some d \<Rightarrow>
                 bind_res (coerceDefault d) (\<lambda>d'. ret (dict_set (PStr ''default'') d' base)))
            (\<lambda>paramJson.
               ret (Some (if comments \<noteq> []
                          then dict_set (PStr ''value_comment'') (PDict comments) paramJson
                          else paramJson))))"
    by (simp only: r K_def base_def Let_def eqTrueI [OF assms(2)] if_True option.case prod.case)
  from bind_res_InrD [OF K [unfolded this]] obtain l3 where
    "bind_res
       (case dflt of
          None \<Rightarrow> ret base
        | Some d \<Rightarrow>
            bind_res (coerceDefault d) (\<lambda>d'. ret (dict_set (PStr ''default'') d' base)))
       (\<lambda>paramJson.
          ret (Some (if comments \<noteq> []
                     then dict_set (PStr ''value_comment'') (PDict comments) paramJson
                     else paramJson)))
     = (l3, Inr (Some d))"
    by blast
  from bind_res_InrD [OF this] obtain l4 pj where
    pj: "(case dflt of
          None \<Rightarrow> ret base
        | Some d \<Rightarrow>
            bind_res (coerceDefault d) (\<lambda>d'. ret (dict_set (PStr ''default'') d' base)))
         = (l4, Inr pj)"
    and d: "d = (if comments \<noteq> []
                     then dict_set (PStr ''value_comment'') (PDict comments) pj
                     else pj)"
    by (auto simp: ret_eq)
  have "dict_get pj (PStr ''name'') = Some (opt_str (attr_get param ''name''))"
    using pj b by (cases dflt) (auto simp: ret_eq dict_get_set dest!: bind_ret_InrD)
  then show ?thesis
    unfolding d by (simp add: dict_get_set)
qed

lemma getJsonParam_name:
  assumes "getJsonParam param = (l, Inr (Some d))"
    and "truthy (attr_get param ''name'')"
  shows "dict_get d (PStr ''name'') = Some (opt_str (attr_get param ''name''))"
proof (cases "attr_get param ''type'' = Some ''choice''")
  case True
  then have "getJsonParam param = getChoiceJsonParam param"
    by (subst getJsonParam.simps) (simp add: Let_def print_when_def truthy_def)
  then have "getChoiceJsonParam param = (l, Inr (Some d))"
    using assms(1) by simp
  then show ?thesis
    using assms(2) by (rule getChoiceJsonParam_name)
next
  case False
  define T where "T = (if truthy (attr_get param ''type'')
                       then lookupType (attr_get_or param ''type'' [])
                       else ret (ParamType (Single []) [] []))"
  define F where "F = (\<lambda>newType :: ParamType.
        if truthy (attr_get param ''value'') then
          ret (Some (addParamExtraAttrs param
            [(PStr ''name'', opt_str (attr_get param ''name'')),
             (PStr ''description'', PStr (attr_get_or param ''comment'' [])),
             (PStr ''enum'', PList [opt_str (attr_get param ''value'')])]))
        else
          bind_res
            (if array_in (pt_type newType)
             then getListSchema param (pt_type newType)
             else ret [(PStr ''type'', jtype_val (pt_type newType))])
            (\<lambda>schema.
               bind_res
                 (if pt_pattern newType \<noteq> []
                  then ret (dict_set (PStr ''pattern'') (PStr (pt_pattern newType)) schema)
                  else if attr_get param ''type'' = Some ''dict''
                       then setDictParamsSchema param schema
                       else ret schema)
                 (\<lambda>schema.
                    ret (Some (addParamExtraAttrs param
                      (dict_update [(PStr ''name'', opt_str (attr_get param ''name''))]
                         [(PStr ''description'',
                             PStr (if pt_comment newType \<noteq> []
                                   then pt_comment newType @ '', '' @ attr_get_or param ''comment'' []
                                   else attr_get_or param ''comment'' [])),
                          (PStr ''schema'', PDict schema)]))))))"
  have E: "getJsonParam param =
      bind_res (print_when (\<not> truthy (attr_get param ''type'')) (ParamTypeEmpty param))
        (\<lambda>_. bind_res T F)"
    by (subst getJsonParam.simps)
      (simp only: Let_def T_def F_def eqTrueI [OF assms(2)] if_True False if_False)
  from bind_res_InrD [OF assms(1) [unfolded E]] obtain l2 where
    "bind_res T F = (l2, Inr (Some d))"
    by auto
  from bind_res_InrD [OF this] obtain nt l3 where F: "F nt = (l3, Inr (Some d))"
    by auto
  show ?thesis
  proof (cases "truthy (attr_get param ''value'')")
    case True
    then show ?thesis
      using F by (auto simp: F_def ret_eq dict_get_name_addParamExtraAttrs dict_simps)
  next
    case nv: False
    then have "\<exists>schema. Some d = Some (addParamExtraAttrs param
              (dict_update [(PStr ''name'', opt_str (attr_get param ''name''))]
                 [(PStr ''description'',
                     PStr (if pt_comment nt \<noteq> []
                           then pt_comment nt @ '', '' @ attr_get_or param ''comment'' []
                           else attr_get_or param ''comment'' [])),
                  (PStr ''schema'', PDict schema)]))"
      using F by (intro bind2_ret_InrD [of _ _ _ l3]) (simp add: F_def)
    then show ?thesis
      by (auto simp: dict_get_name_addParamExtraAttrs dict_simps)
  qed
qed

text \<open>Every entry of the list that \<^verbatim>\<open>getParams\<close> returns carries the non-empty name of
  its \<^verbatim>\<open><param>\<close>.\<close>

lemma getParamsLoop_names:
  assumes "getParamsLoop cs = (l, Inr ps)"
  shows "\<forall>d\<in>set ps. \<exists>n. n \<noteq> [] \<and> dict_get d (PStr ''name'') = Some (PStr n)"
  using assms
proof (induction cs arbitrary: l ps)
  case Nil
  then show ?case by (simp add: ret_eq)
next
  case (Cons c cs)
  show ?case
  proof (cases "tag c = ''param'' \<and> truthy (attr_get c ''name'')")
    case False
    then have "\<exists>l'. getParamsLoop cs = (l', Inr ps)"
      using Cons.prems
      by (cases "getParamsLoop cs") (auto simp: print_def split: if_splits)
    then show ?thesis using Cons.IH by blast
  next
    case True
    then have "bind_res (getJsonParam c) (\<lambda>jsonParam.
                  bind_res (getParamsLoop cs) (\<lambda>params.
                    ret (case jsonParam of None \<Rightarrow> params | Some j \<Rightarrow> j # params)))
               = (l, Inr ps)"
      using Cons.prems by simp
    from bind_res_InrD [OF this] obtain l1 jp l2 where
      jp: "getJsonParam c = (l1, Inr jp)" and
      R: "bind_res (getParamsLoop cs) (\<lambda>params.
                    ret (case jp of None \<Rightarrow> params | Some j \<Rightarrow> j # params)) = (l2, Inr ps)"
      by auto
    from bind_res_InrD [OF R] obtain l3 ps' where
      ps': "getParamsLoop cs = (l3, Inr ps')" and
      ps: "ps = (case jp of None \<Rightarrow> ps' | Some j \<Rightarrow> j # ps')"
      by (auto simp: ret_eq)
    note IH = Cons.IH [OF ps']
    show ?thesis
    proof (cases jp)
      case None
      then show ?thesis using IH ps by simp
    next
      case (Some j)
      obtain n where n: "attr_get c ''name'' = Some n" "n \<noteq> []"
        using True by (cases "attr_get c ''name''") (auto simp: truthy_def)
      have "dict_get j (PStr ''name'') = Some (PStr n)"
        using getJsonParam_name [OF jp [unfolded Some]] True n by (simp add: opt_str_def)
      then show ?thesis
        using IH ps Some n by auto
    qed
  qed
qed

text \<open>A converted method is named \<^verbatim>\<open><handler>.<method>\<close> with a non-empty method name,
  and every entry of its \<^verbatim>\<open>params\<close> carries a non-empty name.\<close>

lemma getJsonMethod_names:
  assumes "getJsonMethod hn m ats = (l, Inr (Some jm))"
  shows "\<exists>n ps. n \<noteq> [] \<and> attr_get m ''name'' = Some n
     \<and> dict_get jm (PStr ''name'') = Some (PStr (hn @ ''.'' @ n))
     \<and> dict_get jm (PStr ''params'') = Some (PList (map PDict ps))
     \<and> (\<forall>d\<in>set ps. \<exists>n. n \<noteq> [] \<and> dict_get d (PStr ''name'') = Some (PStr n))"
proof -
  have t: "tag m = ''method''"
    by (rule ccontr) (use assms in \<open>simp add: getJsonMethod_def ret_eq\<close>)
  have n: "truthy (attr_get m ''name'')"
    by (rule ccontr) (use assms t in \<open>simp add: getJsonMethod_def Let_def print_ret_eq\<close>)
  then obtain nm where nm: "attr_get m ''name'' = Some nm" "nm \<noteq> []"
    by (cases "attr_get m ''name''") (auto simp: truthy_def)
  obtain i where i: "find_child ''input'' m = Some i"
    using assms t n
    by (cases "find_child ''input'' m") (auto simp: getJsonMethod_def Let_def print_ret_eq)
  obtain out where out: "find_child ''output'' m = Some out"
    using assms t n i
    by (cases "find_child ''output'' m") (auto simp: getJsonMethod_def Let_def print_ret_eq)
  define J where "J ps = dict_set (PStr ''params'') (PList (map PDict ps))
          (if truthy (attr_get m ''requires_perm'')
           then dict_set (PStr ''requires_perm'') (opt_str (attr_get m ''requires_perm''))
                  [(PStr ''name'', PStr (hn @ ''.'' @ attr_get_or m ''name'' [])),
                   (PStr ''description'', PStr (attr_get_or m ''comment'' [])),
                   (PStr ''auth_type'', PList (map PStr ats))]
           else [(PStr ''name'', PStr (hn @ ''.'' @ attr_get_or m ''name'' [])),
                 (PStr ''description'', PStr (attr_get_or m ''comment'' [])),
                 (PStr ''auth_type'', PList (map PStr ats))])" for ps
  have Jn: "dict_get (J ps) (PStr ''name'') = Some (PStr (hn @ ''.'' @ nm))"
    "dict_get (J ps) (PStr ''params'') = Some (PList (map PDict ps))" for ps
    using nm by (simp_all add: J_def dict_simps attr_get_or_def)
  define K where "K = (\<lambda>jsonMethod resolved.
      case resolved of
        None \<Rightarrow> ret None
      | Some (resultType, resultValues) \<Rightarrow>
          bind_res (resultParamsLoop (getchildren out) [])
            (\<lambda>resultParams.
               ret (Some (dict_set (PStr ''result'')
                 (PDict (buildResult (attr_get_or out ''comment'' []) resultType resultValues
                           resultParams))
                 jsonMethod))))"
  have E: "getJsonMethod hn m ats
          = bind_res (getParams i) (\<lambda>ps. bind_res (resolveOutput m out) (K (J ps)))"
    by (simp add: getJsonMethod_def t n i out Let_def K_def J_def)
  from bind_res_InrD [OF assms [unfolded E]] obtain lp ps l2 where
    P: "getParams i = (lp, Inr ps)" and
    B: "bind_res (resolveOutput m out) (K (J ps)) = (l2, Inr (Some jm))"
    by auto
  from bind_res_InrD [OF B] obtain resolved l4 where
    C: "K (J ps) resolved = (l4, Inr (Some jm))"
    by auto
  obtain rt rv where res: "resolved = Some (rt, rv)"
    using C by (cases resolved) (auto simp: K_def ret_eq)
  have "\<exists>rp. Some jm = Some (dict_set (PStr ''result'')
                 (PDict (buildResult (attr_get_or out ''comment'' []) rt rv rp)) (J ps))"
    using C by (intro bind_ret_InrD [of "resultParamsLoop (getchildren out) []" _ l4])
      (simp add: res K_def)
  then have "dict_get jm (PStr ''name'') = Some (PStr (hn @ ''.'' @ nm))"
    "dict_get jm (PStr ''params'') = Some (PList (map PDict ps))"
    using Jn by (auto simp: dict_simps)
  moreover have "\<forall>d\<in>set ps. \<exists>n. n \<noteq> [] \<and> dict_get d (PStr ''name'') = Some (PStr n)"
    using P getParamsLoop_names by (simp add: getParams.simps)
  ultimately show ?thesis
    using nm by blast
qed

text \<open>
  C9 fails on the code. The entries of a method's \<^verbatim>\<open>params\<close> and the method
  names are non-empty, as the lemmas above show. But with a literal \<^verbatim>\<open>value\<close> attribute, \<^verbatim>\<open>getJsonParam\<close> stores
  the name under \<^verbatim>\<open>"name"\<close> whether or not there is one (line 280), where its other
  branch and \<^verbatim>\<open>getChoiceJsonParam\<close> store it only when it is non-empty. The
  \<^verbatim>\<open><value>\<close> child of a dictionary with dynamic keys has no name, so its fragment
  under \<^verbatim>\<open>__value__\<close> carries a \<^verbatim>\<open>name\<close> key that is \<^verbatim>\<open>None\<close>.
\<close>

theorem C9_value_fragment_has_null_name:
  "\<exists>log obj sch.
      getJsonParam ex_dyn_value_param = (log, Inr (Some obj))
    \<and> dict_get obj (PStr ''schema'') = Some (PDict sch)
    \<and> dict_get sch (PStr ''__value__'') =
        Some (PDict [(PStr ''name'', PNone), (PStr ''description'', PStr []),
                     (PStr ''enum'', PList [PStr ''5''])])"
  by (simp add: ex7_defs eval_defs)


end
